theory Spec2Isabelle
  imports Complex_Main "HOL-Library.Sublist"
begin

section \<open>Data of the extraction backend\<close>

text \<open>
  The program receives dictionaries from the extraction backend. A dictionary with a
  known set of keys is a record whose fields are optional: \<open>None\<close> is the absent key
  (or the value \<open>None\<close>, which \<open>d.get(k) or default\<close> treats alike). Heights and
  frame rates are integers. The keys of an info dictionary that the program never reads
  are kept in \<open>i_other\<close>, so that the emptiness of the dictionary can be told.
\<close>

record format =
  f_height :: "int option"
  f_fps :: "int option"
  f_acodec :: "string option"
  f_vcodec :: "string option"
  f_url :: "string option"

record info =
  i_formats :: "format list option"
  i_original_url :: "string option"
  i_webpage_url :: "string option"
  i_uploader :: "string option"
  i_uploader_url :: "string option"
  i_title :: "string option"
  i_description :: "string option"
  i_other :: "(string \<times> string) list"

section \<open>Quality buckets\<close>

text \<open>\<open>FORMAT_MAPPING\<close>: a dictionary literal, kept in insertion order.\<close>

definition FORMAT_MAPPING :: "(string \<times> string) list" where
  "FORMAT_MAPPING =
    [(''2k'',      ''bestvideo[height>=1440]+bestaudio/best''),
     (''1080p60'', ''bestvideo[height>=1080][fps>=60]+bestaudio/best''),
     (''1080p'',   ''bestvideo[height>=1080]+bestaudio/best''),
     (''720p60'',  ''bestvideo[height>=720][fps>=60]+bestaudio/best''),
     (''720p'',    ''bestvideo[height>=720][height<1080]+bestaudio/best''),
     (''360p'',    ''bestvideo[height>=360][height<720]+bestaudio/best''),
     (''240p'',    ''bestvideo[height>=240][height<360]+bestaudio/best''),
     (''144p'',    ''bestvideo[height>=144][height<240]+bestaudio/best'')]"

definition ALL_QUALITIES :: "string list" where
  "ALL_QUALITIES = map fst FORMAT_MAPPING"

text \<open>\<open>f.get(key) or 0\<close>: an absent key, \<open>None\<close> and \<open>0\<close> all give \<open>0\<close>.\<close>

definition get_or_0 :: "int option \<Rightarrow> int" where
  "get_or_0 v = (case v of None \<Rightarrow> 0 | Some n \<Rightarrow> if n = 0 then 0 else n)"

text \<open>One pass of the loop body of \<open>available_buckets\<close> over a format.\<close>

definition bucket_step :: "format \<Rightarrow> string set \<Rightarrow> string set" where
  "bucket_step f bucket_avail =
    (let h = get_or_0 (f_height f);
         fps = get_or_0 (f_fps f);
         b1 = (if h \<ge> 1440 then insert ''2k'' bucket_avail else bucket_avail);
         b2 = (if h \<ge> 1080 \<and> fps \<ge> 60 then insert ''1080p60'' b1 else b1);
         b3 = (if h \<ge> 1080 then insert ''1080p'' b2 else b2);
         b4 = (if h \<ge> 720 \<and> fps \<ge> 60 then insert ''720p60'' b3 else b3);
         b5 = (if h \<ge> 720 \<and> h < 1080 then insert ''720p'' b4 else b4);
         b6 = (if h \<ge> 360 \<and> h < 720 then insert ''360p'' b5 else b5);
         b7 = (if h \<ge> 240 \<and> h < 360 then insert ''240p'' b6 else b6);
         b8 = (if h \<ge> 144 \<and> h < 240 then insert ''144p'' b7 else b7)
     in b8)"

text \<open>\<open>info.get("formats", [])\<close>.\<close>

definition formats_of :: "info \<Rightarrow> format list" where
  "formats_of info = (case i_formats info of None \<Rightarrow> [] | Some fs \<Rightarrow> fs)"

definition available_buckets :: "info \<Rightarrow> string list" where
  "available_buckets info =
    (let formats = formats_of info;
         bucket_avail = fold bucket_step formats {};
         result = filter (\<lambda>q. q \<in> bucket_avail) ALL_QUALITIES
     in if result \<noteq> [] then result else [''360p''])"

subsection \<open>The tier table of the specification\<close>

text \<open>
  The specification's side of the comparison: the fixed enumeration order of the quality
  tiers and the membership predicate of each tier over a height \<open>h\<close> and a frame rate
  \<open>r\<close>, as tabulated in section 4.1 of the specification.
\<close>

definition spec_tier_order :: "string list" where
  "spec_tier_order =
    [''2k'', ''1080p60'', ''1080p'', ''720p60'', ''720p'', ''360p'', ''240p'', ''144p'']"

definition spec_tier_predicate :: "string \<Rightarrow> int \<Rightarrow> int \<Rightarrow> bool" where
  "spec_tier_predicate q h r =
    (if q = ''2k'' then h \<ge> 1440
     else if q = ''1080p60'' then h \<ge> 1080 \<and> r \<ge> 60
     else if q = ''1080p'' then h \<ge> 1080
     else if q = ''720p60'' then h \<ge> 720 \<and> r \<ge> 60
     else if q = ''720p'' then 720 \<le> h \<and> h < 1080
     else if q = ''360p'' then 360 \<le> h \<and> h < 720
     else if q = ''240p'' then 240 \<le> h \<and> h < 360
     else if q = ''144p'' then 144 \<le> h \<and> h < 240
     else False)"

text \<open>A tier is satisfied by a list of variants when one of them meets its predicate,
  an unknown height or frame rate counting as 0.\<close>

definition tier_satisfied :: "format list \<Rightarrow> string \<Rightarrow> bool" where
  "tier_satisfied vs q =
    list_ex (\<lambda>v. spec_tier_predicate q (get_or_0 (f_height v)) (get_or_0 (f_fps v))) vs"

section \<open>Python values, strings and exceptions\<close>

datatype py_exception =
    KeyError string
  | TypeError string
  | ValueError string
  | AttributeError string
  | OverflowError string
  | OSError string
  | DownloadError string
  | BrowserError string

text \<open>
  A value as \<open>json.loads\<close> returns it; a dictionary keeps its items in order. A number
  is an integer of any size or a float; a float is the real number it denotes (the
  infinities and NaN are not represented).
\<close>

datatype pyval =
    PyNone
  | PyBool bool
  | PyInt int
  | PyFloat real
  | PyStr string
  | PyList "pyval list"
  | PyDict "(string \<times> pyval) list"

text \<open>Truth value of an optional string: \<open>None\<close> and \<open>""\<close> are false.\<close>

definition truthy_str :: "string option \<Rightarrow> bool" where
  "truthy_str v = (case v of None \<Rightarrow> False | Some s \<Rightarrow> s \<noteq> [])"

text \<open>\<open>sep.join(xs)\<close>.\<close>

fun py_join :: "string \<Rightarrow> string list \<Rightarrow> string" where
  "py_join sep [] = []"
| "py_join sep [x] = x"
| "py_join sep (x # y # ys) = x @ sep @ py_join sep (y # ys)"

text \<open>\<open>str(n)\<close> of an integer: its decimal digits, after a minus sign when negative.\<close>

fun str_nat :: "nat \<Rightarrow> string" where
  "str_nat n = (if n < 10 then [char_of (48 + n)] else str_nat (n div 10) @ [char_of (48 + n mod 10)])"

declare str_nat.simps [simp del]

definition py_str_int :: "int \<Rightarrow> string" where
  "py_str_int i = (if i < 0 then CHR ''-'' # str_nat (nat (- i)) else str_nat (nat i))"

text \<open>
  The library functions the program calls and whose results it only passes on: parsing the
  decoded and stripped response (\<open>json.loads(response.decode("utf-8").strip())\<close>),
  \<open>float\<close> of a string, \<open>str\<close> of a float (also the format of \<open>f"{x}"\<close>) and
  the format \<open>f"{x:.1f}"\<close>, \<open>str\<close> of an exception, \<open>str\<close> of a list or
  dictionary, \<open>platform.system()\<close>, and the page fetch of \<open>scrape_channel_avatar\<close>
  (the \<open>content\<close> of the page's \<open>og:image\<close> tag, if any).
\<close>

record library =
  json_loads :: "string \<Rightarrow> py_exception + pyval"
  str_to_float :: "string \<Rightarrow> real option"
  fmt_float :: "real \<Rightarrow> string"
  fmt_float_1f :: "real \<Rightarrow> string"
  str_exception :: "py_exception \<Rightarrow> string"
  str_container :: "pyval \<Rightarrow> string"
  platform_system :: string
  fetch_og_image :: "string \<Rightarrow> py_exception + string option"

section \<open>The control channel\<close>

text \<open>
  What the peer of a control-channel path does: whether creating and connecting the
  socket fails, whether \<open>sendall\<close> fails, and the results of the successive \<open>recv\<close>
  calls (an exception or a chunk); after the last listed one the peer has closed the
  stream and \<open>recv\<close> returns the empty chunk.
\<close>

record ipc_endpoint =
  connect_error :: "py_exception option"
  sendall_error :: "py_exception option"
  recv_results :: "(py_exception + string) list"

text \<open>The receive loop: stops at an empty chunk, or after a chunk that holds a newline.\<close>

fun recv_loop :: "(py_exception + string) list \<Rightarrow> string \<Rightarrow> py_exception + string" where
  "recv_loop [] response = Inr response"
| "recv_loop (Inl e # rest) response = Inl e"
| "recv_loop (Inr chunk # rest) response =
     (if chunk = [] then Inr response
      else if CHR 0x0A \<in> set chunk then Inr (response @ chunk)
      else recv_loop rest (response @ chunk))"

text \<open>The number of binary digits of a natural number.\<close>

fun bit_length :: "nat \<Rightarrow> nat" where
  "bit_length m = (if m = 0 then 0 else Suc (bit_length (m div 2)))"

declare bit_length.simps [simp del]

text \<open>
  \<open>float(n)\<close> of an integer. A double has 53 significant binary digits: a magnitude
  below \<open>2^53\<close> is kept, a larger one is rounded to its 53 leading digits, to the
  nearest and at a tie to the even one. A magnitude of \<open>2^1024 - 2^970\<close> or more
  would round beyond the largest double and raises \<open>OverflowError\<close>.
\<close>

definition round_to_double :: "nat \<Rightarrow> nat" where
  "round_to_double m =
    (if m < 2 ^ 53 then m
     else
       (let e = bit_length m - 53;
            q = m div 2 ^ e;
            r = m mod 2 ^ e;
            half = 2 ^ (e - 1);
            q1 = (if r > half \<or> (r = half \<and> odd q) then q + 1 else q)
        in q1 * 2 ^ e))"

definition float_overflow_bound :: nat where
  "float_overflow_bound = 2 ^ 1024 - 2 ^ 970"

definition float_of_int :: "int \<Rightarrow> py_exception + real" where
  "float_of_int n =
    (let m = nat \<bar>n\<bar> in
     if m \<ge> float_overflow_bound
     then Inl (OverflowError ''int too large to convert to float'')
     else Inr (if n < 0 then - real (round_to_double m) else real (round_to_double m)))"

text \<open>\<open>float(v)\<close>.\<close>

definition py_float :: "library \<Rightarrow> pyval \<Rightarrow> py_exception + real" where
  "py_float lib v =
    (case v of
       PyFloat x \<Rightarrow> Inr x
     | PyInt n \<Rightarrow> float_of_int n
     | PyBool b \<Rightarrow> Inr (if b then 1 else 0)
     | PyStr s \<Rightarrow> (case str_to_float lib s of
                     None \<Rightarrow> Inl (ValueError ''could not convert string to float'')
                   | Some x \<Rightarrow> Inr x)
     | _ \<Rightarrow> Inl (TypeError ''float() argument must be a string or a real number''))"

text \<open>\<open>"data" in data\<close>: a key of a dictionary, an element of a list, a substring of a
  string; a type error otherwise.\<close>

definition py_contains_data :: "pyval \<Rightarrow> py_exception + bool" where
  "py_contains_data d =
    (case d of
       PyDict kvs \<Rightarrow> Inr (map_of kvs ''data'' \<noteq> None)
     | PyList vs \<Rightarrow> Inr (PyStr ''data'' \<in> set vs)
     | PyStr s \<Rightarrow> Inr (sublist ''data'' s)
     | _ \<Rightarrow> Inl (TypeError ''argument is not iterable''))"

text \<open>\<open>data["data"]\<close>, evaluated only when \<open>"data" in data\<close> holds.\<close>

definition py_subscript_data :: "pyval \<Rightarrow> py_exception + pyval" where
  "py_subscript_data d =
    (case d of
       PyDict kvs \<Rightarrow> (case map_of kvs ''data'' of None \<Rightarrow> Inl (KeyError ''data'') | Some v \<Rightarrow> Inr v)
     | _ \<Rightarrow> Inl (TypeError ''indices must be integers''))"

text \<open>
  The body of the \<open>try\<close> of \<open>get_current_playback_time\<close>: \<open>Inl\<close> an exception,
  \<open>Inr (Some x)\<close> the \<open>return float(data["data"])\<close>, \<open>Inr None\<close> when the body
  ends without returning.
\<close>

definition playback_time_try :: "library \<Rightarrow> ipc_endpoint \<Rightarrow> py_exception + real option" where
  "playback_time_try lib ep =
    (case connect_error ep of
       Some e \<Rightarrow> Inl e
     | None \<Rightarrow>
        (case sendall_error ep of
           Some e \<Rightarrow> Inl e
         | None \<Rightarrow>
            (case recv_loop (recv_results ep) [] of
               Inl e \<Rightarrow> Inl e
             | Inr response \<Rightarrow>
                (case json_loads lib response of
                   Inl e \<Rightarrow> Inl e
                 | Inr d \<Rightarrow>
                    (case py_contains_data d of
                       Inl e \<Rightarrow> Inl e
                     | Inr False \<Rightarrow> Inr None
                     | Inr True \<Rightarrow>
                        (case py_subscript_data d of
                           Inl e \<Rightarrow> Inl e
                         | Inr v \<Rightarrow>
                            (case py_float lib v of
                               Inl e \<Rightarrow> Inl e
                             | Inr x \<Rightarrow> Inr (Some x))))))))"

text \<open>The exception is caught and printed; every path but the \<open>return\<close> inside the
  \<open>try\<close> ends in \<open>return 0.0\<close>.\<close>

definition get_current_playback_time ::
    "library \<Rightarrow> (string \<Rightarrow> ipc_endpoint) \<Rightarrow> string \<Rightarrow> real" where
  "get_current_playback_time lib ipc ipc_path =
    (case playback_time_try lib (ipc ipc_path) of
       Inr (Some x) \<Rightarrow> x
     | Inr None \<Rightarrow> 0
     | Inl e \<Rightarrow> 0)"

section \<open>The application object\<close>

text \<open>A started \<open>QProcess\<close>: the program and its argument list.\<close>

record process =
  program :: string
  arguments :: "string list"

text \<open>A \<open>QComboBox\<close>: its items and the current index (\<open>-1\<close> when there is none).\<close>

record combo_box =
  items :: "string list"
  current_index :: int

definition combo_clear :: "combo_box \<Rightarrow> combo_box" where
  "combo_clear c = \<lparr>items = [], current_index = - 1\<rparr>"

definition combo_addItem :: "string \<Rightarrow> combo_box \<Rightarrow> combo_box" where
  "combo_addItem q c =
     \<lparr>items = items c @ [q],
      current_index = (if items c = [] then 0 else current_index c)\<rparr>"

definition combo_setCurrentIndex :: "int \<Rightarrow> combo_box \<Rightarrow> combo_box" where
  "combo_setCurrentIndex i c =
     (if - 1 \<le> i \<and> i < int (length (items c)) then c\<lparr>current_index := i\<rparr> else c)"

definition currentText :: "combo_box \<Rightarrow> string" where
  "currentText c =
     (if 0 \<le> current_index c \<and> current_index c < int (length (items c))
      then items c ! nat (current_index c) else [])"

text \<open>
  The fields of \<open>ModernYouTubeClient\<close> that the playback operations read or write.
  \<open>console_output\<close> holds the appended messages, \<open>win_id\<close> is the window handle of the
  playback widget, \<open>sync_timer\<close> the interval of the running timer, and
  \<open>os_commands\<close> the commands handed to \<open>os.system\<close>. Signals of the widgets are not
  part of the model: each handler is the function the source writes.
\<close>

record client =
  current_info :: "info option"
  current_video_url :: "string option"
  qualities_available :: "string list"
  player_process :: "process option"
  is_detached :: bool
  playlist :: "string list"
  video_process :: "process option"
  audio_process :: "process option"
  channel_avatar_url :: "string option"
  channel_name :: "string option"
  channel_url :: "string option"
  video_title :: "string option"
  video_description :: "string option"
  sync_timer :: "int option"
  quality_combo :: combo_box
  console_output :: "string list"
  win_id :: int
  os_commands :: "string list"

definition LOG_FILE :: string where
  "LOG_FILE = ''mpvlog.txt''"

definition console_append :: "string \<Rightarrow> client \<Rightarrow> client" where
  "console_append msg s = s\<lparr>console_output := console_output s @ [msg]\<rparr>"

definition os_system :: "string \<Rightarrow> client \<Rightarrow> client" where
  "os_system cmd s = s\<lparr>os_commands := os_commands s @ [cmd]\<rparr>"

definition kill_mpv :: "library \<Rightarrow> client \<Rightarrow> client" where
  "kill_mpv lib s =
    (let os_type = platform_system lib in
     if os_type = ''Windows'' then os_system ''taskkill /F /IM mpv.exe'' s
     else if os_type = ''Linux'' then os_system ''pkill mpv'' s
     else if os_type = ''Darwin'' then os_system ''pkill mpv'' s
     else console_append ''Unsupported OS for killing mpv.'' s)"

text \<open>\<open>FORMAT_MAPPING.get(quality_label, "best")\<close>.\<close>

definition mpv_format_of :: "string \<Rightarrow> string" where
  "mpv_format_of quality_label =
     (case map_of FORMAT_MAPPING quality_label of None \<Rightarrow> ''best'' | Some f \<Rightarrow> f)"

definition launch_mpv_merged :: "library \<Rightarrow> string \<Rightarrow> real \<Rightarrow> client \<Rightarrow> client" where
  "launch_mpv_merged lib quality_label start_time s =
    (case current_video_url s of
       None \<Rightarrow> console_append ''No URL to play.'' s
     | Some video_url \<Rightarrow>
        if video_url = [] then console_append ''No URL to play.'' s
        else
          (let mpv_format = mpv_format_of quality_label;
               mpv_args =
                 [''--osc'',
                  ''--cache=yes'',
                  ''--demuxer-thread=yes'',
                  ''--ytdl-format='' @ mpv_format,
                  ''--log-file='' @ LOG_FILE,
                  ''--msg-level=all=v'',
                  ''--input-ipc-server=/tmp/mpvsocket'',
                  video_url];
               mpv_args1 = (if start_time > 0
                            then (''--start='' @ fmt_float lib start_time) # mpv_args
                            else mpv_args);
               mpv_args2 = (if \<not> is_detached s
                            then (''--wid='' @ py_str_int (win_id s)) # mpv_args1
                            else mpv_args1);
               s1 = kill_mpv lib s;
               s2 = console_append
                      (''Launching mpv with '' @ [CHR 0x27] @ quality_label @ [CHR 0x27] @
                       '' at '' @ fmt_float_1f lib start_time @ ''s'') s1
           in s2\<lparr>player_process := Some \<lparr>program = ''mpv'', arguments = mpv_args2\<rparr>\<rparr>))"

definition on_quality_changed :: "library \<Rightarrow> (string \<Rightarrow> ipc_endpoint) \<Rightarrow> client \<Rightarrow> client" where
  "on_quality_changed lib ipc s =
    (if \<not> truthy_str (current_video_url s) \<or> player_process s = None then s
     else
       (let time_pos = get_current_playback_time lib ipc ''/tmp/mpvsocket'';
            new_q = currentText (quality_combo s);
            s1 = console_append
                   (''Switching quality to '' @ new_q @ '' at '' @
                    fmt_float_1f lib time_pos @ ''s'') s
        in launch_mpv_merged lib new_q time_pos s1))"

text \<open>\<open>scrape_channel_avatar\<close>: no request for an empty address; a failed request and a
  missing or empty tag all give \<open>None\<close>.\<close>

definition scrape_channel_avatar :: "library \<Rightarrow> string option \<Rightarrow> string option" where
  "scrape_channel_avatar lib url =
    (case url of
       None \<Rightarrow> None
     | Some u \<Rightarrow>
        if u = [] then None
        else (case fetch_og_image lib u of
                Inl e \<Rightarrow> None
              | Inr None \<Rightarrow> None
              | Inr (Some c) \<Rightarrow> if c = [] then None else Some c))"

text \<open>
  \<open>on_extraction_done\<close> receives what the worker emits: the exception, or the pair of
  the mode and the info dictionary. \<open>update_video_info_fields\<close> only fills labels and is
  left out.
\<close>

definition on_extraction_done ::
    "library \<Rightarrow> py_exception + (string \<times> info) \<Rightarrow> client \<Rightarrow> client" where
  "on_extraction_done lib result s =
    (case result of
       Inl e \<Rightarrow> console_append (''Extraction error: '' @ str_exception lib e) s
     | Inr (mode, info) \<Rightarrow>
        (let s1 = s\<lparr>current_info := Some info\<rparr>;
             s2 = s1\<lparr>current_video_url :=
                     (case i_original_url info of
                        Some u \<Rightarrow> Some u
                      | None \<Rightarrow> (case i_webpage_url info of Some u \<Rightarrow> Some u | None \<Rightarrow> None))\<rparr>;
             s3 = s2\<lparr>channel_name :=
                     Some (case i_uploader info of None \<Rightarrow> ''Unknown Channel'' | Some u \<Rightarrow> u)\<rparr>;
             s4 = s3\<lparr>channel_url :=
                     Some (case i_uploader_url info of None \<Rightarrow> [] | Some u \<Rightarrow> u)\<rparr>;
             s5 = s4\<lparr>channel_avatar_url := scrape_channel_avatar lib (channel_url s4)\<rparr>;
             s6 = s5\<lparr>video_title :=
                     Some (case i_title info of None \<Rightarrow> ''Untitled'' | Some t \<Rightarrow> t)\<rparr>;
             s7 = s6\<lparr>video_description :=
                     Some (case i_description info of
                             None \<Rightarrow> ''No description available.'' | Some d \<Rightarrow> d)\<rparr>;
             s8 = (if mode = ''no_cookies''
                   then console_append ''Extraction succeeded without cookies.'' s7
                   else console_append ''Extraction succeeded with cookies fallback.'' s7);
             s9 = s8\<lparr>qualities_available := available_buckets info\<rparr>;
             s10 = s9\<lparr>quality_combo :=
                      fold combo_addItem (qualities_available s9) (combo_clear (quality_combo s9))\<rparr>;
             s11 = (if qualities_available s10 \<noteq> []
                    then s10\<lparr>quality_combo := combo_setCurrentIndex 0 (quality_combo s10)\<rparr>
                    else s10);
             best = (case qualities_available s11 of [] \<Rightarrow> ''360p'' | q # qs \<Rightarrow> q);
             s12 = launch_mpv_merged lib best 0 s11
         in console_append
              (''Available qualities: '' @ py_join '', '' (qualities_available s12)) s12))"

text \<open>The two assignments of the loop body of \<open>watch_separate_streams\<close>; \<open>f["url"]\<close>
  raises for a format without that key.\<close>

definition pick_url ::
    "format \<Rightarrow> string option \<Rightarrow> string option \<Rightarrow> py_exception + string option" where
  "pick_url f codec found =
    (if codec = Some ''none'' \<and> \<not> truthy_str found
     then (case f_url f of None \<Rightarrow> Inl (KeyError ''url'') | Some u \<Rightarrow> Inr (Some u))
     else Inr found)"

fun find_streams ::
    "format list \<Rightarrow> string option \<Rightarrow> string option \<Rightarrow>
     py_exception + (string option \<times> string option)" where
  "find_streams [] video_only_url audio_only_url = Inr (video_only_url, audio_only_url)"
| "find_streams (f # fs) video_only_url audio_only_url =
    (case pick_url f (f_acodec f) video_only_url of
       Inl e \<Rightarrow> Inl e
     | Inr v \<Rightarrow>
        (case pick_url f (f_vcodec f) audio_only_url of
           Inl e \<Rightarrow> Inl e
         | Inr a \<Rightarrow> find_streams fs v a))"

text \<open>\<open>not self.current_info\<close>: no dictionary yet, or one without any key.\<close>

definition info_falsy :: "info option \<Rightarrow> bool" where
  "info_falsy v =
    (case v of
       None \<Rightarrow> True
     | Some i \<Rightarrow> i_formats i = None \<and> i_original_url i = None \<and> i_webpage_url i = None \<and>
                 i_uploader i = None \<and> i_uploader_url i = None \<and> i_title i = None \<and>
                 i_description i = None \<and> i_other i = [])"

definition watch_separate_streams :: "library \<Rightarrow> client \<Rightarrow> py_exception + client" where
  "watch_separate_streams lib s =
    (if info_falsy (current_info s)
     then Inr (console_append ''No video info for separate streams.'' s)
     else
       (case find_streams (case current_info s of None \<Rightarrow> [] | Some i \<Rightarrow> formats_of i) None None of
          Inl e \<Rightarrow> Inl e
        | Inr (video_only_url, audio_only_url) \<Rightarrow>
           if \<not> truthy_str video_only_url \<or> \<not> truthy_str audio_only_url
           then Inr (launch_mpv_merged lib (currentText (quality_combo s)) 0
                       (console_append ''No separate streams found; fallback merged.'' s))
           else
             (let s1 = kill_mpv lib s;
                  video_ipc = ''/tmp/mpv_video'';
                  audio_ipc = ''/tmp/mpv_audio'';
                  video_args =
                    [''--no-audio'', ''--osc'', ''--cache=yes'', ''--demuxer-thread=yes'',
                     ''--input-ipc-server='' @ video_ipc, the video_only_url];
                  audio_args =
                    [''--no-video'', ''--osc'', ''--cache=yes'', ''--demuxer-thread=yes'',
                     ''--input-ipc-server='' @ audio_ipc, the audio_only_url];
                  video_args1 = (if \<not> is_detached s1
                                 then (''--wid='' @ py_str_int (win_id s1)) # video_args
                                 else video_args);
                  s2 = console_append ''Launching separate mpv processes for video and audio.'' s1;
                  s3 = s2\<lparr>video_process := Some \<lparr>program = ''mpv'', arguments = video_args1\<rparr>\<rparr>;
                  s4 = s3\<lparr>audio_process := Some \<lparr>program = ''mpv'', arguments = audio_args\<rparr>\<rparr>
              in Inr (s4\<lparr>sync_timer := Some 1000\<rparr>))))"

section \<open>Cookies\<close>

text \<open>A cookie dictionary of the browser session. The expiry is whatever value the
  browser reports under \<open>expires\<close>: an integer, a float, or any other value.\<close>

record cookie =
  c_domain :: "string option"
  c_path :: "string option"
  c_secure :: "bool option"
  c_expires :: "pyval option"
  c_name :: "string option"
  c_value :: "string option"

text \<open>\<open>str(v)\<close>.\<close>

definition py_str :: "library \<Rightarrow> pyval \<Rightarrow> string" where
  "py_str lib v =
    (case v of
       PyNone \<Rightarrow> ''None''
     | PyBool b \<Rightarrow> (if b then ''True'' else ''False'')
     | PyInt n \<Rightarrow> py_str_int n
     | PyFloat x \<Rightarrow> fmt_float lib x
     | PyStr t \<Rightarrow> t
     | PyList vs \<Rightarrow> str_container lib v
     | PyDict kvs \<Rightarrow> str_container lib v)"

text \<open>The seven fields of the line that \<open>save_cookies_to_file\<close> writes for a cookie.\<close>

definition cookie_fields :: "library \<Rightarrow> cookie \<Rightarrow> string list" where
  "cookie_fields lib c =
    (let domain = (case c_domain c of None \<Rightarrow> [] | Some d \<Rightarrow> d);
         flag = (if prefix ''.'' domain then ''TRUE'' else ''FALSE'');
         path = (case c_path c of None \<Rightarrow> ''/'' | Some p \<Rightarrow> p);
         secure = (if (case c_secure c of None \<Rightarrow> False | Some b \<Rightarrow> b)
                   then ''TRUE'' else ''FALSE'');
         expiry = py_str lib (case c_expires c of None \<Rightarrow> PyInt 0 | Some e \<Rightarrow> e);
         name = (case c_name c of None \<Rightarrow> [] | Some n \<Rightarrow> n);
         val = (case c_value c of None \<Rightarrow> [] | Some v \<Rightarrow> v)
     in [domain, flag, path, secure, expiry, name, val])"

definition cookie_line :: "library \<Rightarrow> cookie \<Rightarrow> string" where
  "cookie_line lib c = py_join [CHR 0x09] (cookie_fields lib c) @ [CHR 0x0A]"

text \<open>Everything \<open>save_cookies_to_file\<close> writes: the header, then a line per cookie.\<close>

definition cookie_file_text :: "library \<Rightarrow> cookie list \<Rightarrow> string" where
  "cookie_file_text lib cookies =
     (''# Netscape HTTP Cookie File'' @ [CHR 0x0A]) @ concat (map (cookie_line lib) cookies)"

subsection \<open>Reading a cookie file\<close>

text \<open>\<open>s.split(c)\<close> for a separator of one character: the pieces of \<open>s\<close> between the
  occurrences of \<open>c\<close>.\<close>

fun split_on :: "char \<Rightarrow> string \<Rightarrow> string list" where
  "split_on c [] = [[]]"
| "split_on c (x # xs) =
     (if x = c then [] # split_on c xs
      else (case split_on c xs of [] \<Rightarrow> [[x]] | p # ps \<Rightarrow> (x # p) # ps))"

text \<open>The lines of a text: the pieces between the newlines, without the empty piece that
  follows a final newline.\<close>

definition text_lines :: "string \<Rightarrow> string list" where
  "text_lines t =
     (let ps = split_on (CHR 0x0A) t in if last ps = [] then butlast ps else ps)"

text \<open>
  Modelled from the spec: the reader of the credential file belongs to the extraction
  backend and is not among the sources. After sections 6 and 8 of the specification (one
  header comment line, then one line per entry with seven tab-separated fields, read back
  as domain, name and value), the reader drops the header line, splits every further
  line at the tabs and, for a line of seven fields, yields the first, the sixth and the
  seventh.
\<close>

definition spec_parse_cookie_file :: "string \<Rightarrow> (string \<times> string \<times> string) list" where
  "spec_parse_cookie_file t =
     List.map_filter
       (\<lambda>l. let fs = split_on (CHR 0x09) l
            in if length fs = 7 then Some (fs ! 0, fs ! 5, fs ! 6) else None)
       (drop 1 (text_lines t))"

text \<open>The domain, name and value of a cookie, an absent key read as the empty string.\<close>

definition cookie_triple :: "cookie \<Rightarrow> string \<times> string \<times> string" where
  "cookie_triple c =
     (case c_domain c of None \<Rightarrow> [] | Some d \<Rightarrow> d,
      case c_name c of None \<Rightarrow> [] | Some n \<Rightarrow> n,
      case c_value c of None \<Rightarrow> [] | Some v \<Rightarrow> v)"

definition is_digit :: "char \<Rightarrow> bool" where
  "is_digit ch = (ch \<in> set ''0123456789'')"

text \<open>A decimal integer: digits, at least one, after an optional minus sign.\<close>

definition is_decimal_integer :: "string \<Rightarrow> bool" where
  "is_decimal_integer t =
     (case t of
        [] \<Rightarrow> False
      | x # xs \<Rightarrow> if x = CHR ''-'' then xs \<noteq> [] \<and> list_all is_digit xs
                 else list_all is_digit (x # xs))"

text \<open>The value of a decimal integer, as a reader of the file takes it.\<close>

definition digits_value :: "string \<Rightarrow> nat" where
  "digits_value t = foldl (\<lambda>a ch. 10 * a + (of_char ch - 48)) 0 t"

definition decimal_value :: "string \<Rightarrow> int" where
  "decimal_value t =
     (case t of
        [] \<Rightarrow> 0
      | x # xs \<Rightarrow> if x = CHR ''-'' then - int (digits_value xs)
                 else int (digits_value (x # xs)))"

text \<open>A string without tab and newline, and a cookie whose four strings and whose
  written expiry are such.\<close>

definition field_clean :: "string \<Rightarrow> bool" where
  "field_clean t = (CHR 0x09 \<notin> set t \<and> CHR 0x0A \<notin> set t)"

definition cookie_clean :: "library \<Rightarrow> cookie \<Rightarrow> bool" where
  "cookie_clean lib c =
     (field_clean (py_str lib (case c_expires c of None \<Rightarrow> PyInt 0 | Some e \<Rightarrow> e)) \<and>
      field_clean (case c_domain c of None \<Rightarrow> [] | Some d \<Rightarrow> d) \<and>
      field_clean (case c_path c of None \<Rightarrow> ''/'' | Some p \<Rightarrow> p) \<and>
      field_clean (case c_name c of None \<Rightarrow> [] | Some n \<Rightarrow> n) \<and>
      field_clean (case c_value c of None \<Rightarrow> [] | Some v \<Rightarrow> v))"

section \<open>The world outside the application object\<close>

text \<open>Results of a channel listing, and the video dictionaries built from it.\<close>

record thumbnail =
  t_url :: "string option"

record entry =
  e_url :: "string option"
  e_title :: "string option"
  e_thumbnails :: "thumbnail list option"

record listing =
  l_entries :: "entry list option"

record video =
  v_title :: string
  v_videoId :: string
  v_thumbnail :: string

text \<open>
  The calls that leave the program, in the order they are made: a run of the extraction
  backend on a video (with the \<open>cookies\<close> option, if any), a flat listing of a
  channel, \<open>os.path.exists\<close>, the headless browser session, and the writing of a file.
\<close>

datatype event =
    ExtractInfo string "string option"
  | ExtractFlat string
  | PathExists string
  | GetCookiesHeadless string
  | WriteFile string

text \<open>
  The module-level caches, the files of the working directory (name to content) and the
  record of the calls made so far.
\<close>

record world =
  extraction_cache :: "string \<times> string option \<Rightarrow> info option"
  channel_videos_cache :: "string \<times> int \<Rightarrow> video list option"
  files :: "string \<Rightarrow> string option"
  calls :: "event list"

text \<open>
  The external collaborators: the extraction backend on a video (it may read the files),
  the backend on a channel in flat mode, and the browser session that collects cookies.
\<close>

record backend =
  extract_info :: "(string \<Rightarrow> string option) \<Rightarrow> string \<Rightarrow> string option \<Rightarrow> py_exception + info"
  extract_flat :: "string \<Rightarrow> py_exception + listing"
  get_cookies_headless :: "string \<Rightarrow> py_exception + cookie list"

definition record_call :: "event \<Rightarrow> world \<Rightarrow> world" where
  "record_call ev w = w\<lparr>calls := calls w @ [ev]\<rparr>"

definition save_cookies_to_file ::
    "library \<Rightarrow> cookie list \<Rightarrow> string \<Rightarrow> world \<Rightarrow> string \<times> world" where
  "save_cookies_to_file lib cookies filename w =
     (filename,
      record_call (WriteFile filename)
        (w\<lparr>files := (files w)(filename \<mapsto> cookie_file_text lib cookies)\<rparr>))"

text \<open>\<open>extract_formats\<close>: an exception of the backend leaves before the cache is written.\<close>

definition extract_formats ::
    "backend \<Rightarrow> string \<Rightarrow> string option \<Rightarrow> world \<Rightarrow> (py_exception + info) \<times> world" where
  "extract_formats bk video_url cookies_file w =
    (let cache_key = (video_url, cookies_file) in
     case extraction_cache w cache_key of
       Some cached \<Rightarrow> (Inr cached, w)
     | None \<Rightarrow>
        (let opts_cookies = (if truthy_str cookies_file then cookies_file else None);
             w1 = record_call (ExtractInfo video_url opts_cookies) w
         in case extract_info bk (files w1) video_url opts_cookies of
              Inl e \<Rightarrow> (Inl e, w1)
            | Inr info \<Rightarrow>
                (Inr info, w1\<lparr>extraction_cache := (extraction_cache w1)(cache_key \<mapsto> info)\<rparr>)))"

text \<open>\<open>entry["thumbnails"][-1]["url"]\<close>, or the empty string without thumbnails.\<close>

definition entry_thumb :: "entry \<Rightarrow> py_exception + string" where
  "entry_thumb e =
    (case e_thumbnails e of
       None \<Rightarrow> Inr []
     | Some ts \<Rightarrow>
        if ts = [] then Inr []
        else (case t_url (last ts) of None \<Rightarrow> Inl (KeyError ''url'') | Some u \<Rightarrow> Inr u))"

text \<open>The loop of \<open>get_channel_videos\<close>: the results so far and the exception that ended
  the loop, if one did.\<close>

fun channel_loop ::
    "entry list \<Rightarrow> int \<Rightarrow> int \<Rightarrow> video list \<Rightarrow> video list \<times> py_exception option" where
  "channel_loop [] max_results count results = (results, None)"
| "channel_loop (e # es) max_results count results =
    (case e_url e of
       None \<Rightarrow> channel_loop es max_results count results
     | Some u \<Rightarrow>
        if u = [] then channel_loop es max_results count results
        else
          (case entry_thumb e of
             Inl ex \<Rightarrow> (results, Some ex)
           | Inr thumb \<Rightarrow>
              (let results1 = results @
                     [\<lparr>v_title = (case e_title e of None \<Rightarrow> ''Unknown'' | Some t \<Rightarrow> t),
                       v_videoId = u, v_thumbnail = thumb\<rparr>];
                   count1 = count + 1
               in if count1 \<ge> max_results then (results1, None)
                  else channel_loop es max_results count1 results1)))"

text \<open>\<open>get_channel_videos\<close> (its parameter \<open>channel_url\<close> is \<open>chan_url\<close> here):
  the exception is caught and printed, and what the loop had collected is stored and
  returned.\<close>

definition get_channel_videos ::
    "backend \<Rightarrow> string \<Rightarrow> int \<Rightarrow> world \<Rightarrow> video list \<times> world" where
  "get_channel_videos bk chan_url max_results w =
    (if chan_url = [] then ([], w)
     else
       (let cache_key = (chan_url, max_results) in
        case channel_videos_cache w cache_key of
          Some cached \<Rightarrow> (cached, w)
        | None \<Rightarrow>
           (let w1 = record_call (ExtractFlat chan_url) w;
                results =
                  (case extract_flat bk chan_url of
                     Inl e \<Rightarrow> []
                   | Inr data \<Rightarrow>
                       fst (channel_loop (case l_entries data of None \<Rightarrow> [] | Some es \<Rightarrow> es)
                              max_results 0 []))
            in (results,
                w1\<lparr>channel_videos_cache := (channel_videos_cache w1)(cache_key \<mapsto> results)\<rparr>))))"

text \<open>
  \<open>extract_with_fallback\<close>. An exception raised inside the \<open>except\<close> block leaves
  the function; the worker hands it to the callback as the result.
\<close>

definition extract_with_fallback ::
    "library \<Rightarrow> backend \<Rightarrow> string \<Rightarrow> world \<Rightarrow>
     (py_exception + string \<times> info) \<times> world" where
  "extract_with_fallback lib bk video_url w =
    (case extract_formats bk video_url None w of
       (Inr info, w1) \<Rightarrow> (Inr (''no_cookies'', info), w1)
     | (Inl e, w1) \<Rightarrow>
        (let w2 = record_call (PathExists ''cookies.txt'') w1;
             saved =
               (if files w2 ''cookies.txt'' = None
                then
                  (let w3 = record_call (GetCookiesHeadless video_url) w2 in
                   case get_cookies_headless bk video_url of
                     Inl e1 \<Rightarrow> Inl (e1, w3)
                   | Inr cookies \<Rightarrow>
                       Inr (snd (save_cookies_to_file lib cookies ''cookies.txt'' w3)))
                else Inr w2)
         in case saved of
              Inl (e1, w3) \<Rightarrow> (Inl e1, w3)
            | Inr w4 \<Rightarrow>
               (case extract_formats bk video_url (Some ''cookies.txt'') w4 of
                  (Inl e2, w5) \<Rightarrow> (Inl e2, w5)
                | (Inr info2, w5) \<Rightarrow> (Inr (''cookies'', info2), w5))))"

subsection \<open>Observers of the calls\<close>

definition acquisitions :: "world \<Rightarrow> nat" where
  "acquisitions w =
     length (filter (\<lambda>ev. case ev of GetCookiesHeadless u \<Rightarrow> True | _ \<Rightarrow> False) (calls w))"

definition backend_runs :: "world \<Rightarrow> nat" where
  "backend_runs w =
     length (filter (\<lambda>ev. case ev of ExtractInfo u c \<Rightarrow> True | ExtractFlat u \<Rightarrow> True | _ \<Rightarrow> False)
       (calls w))"

definition file_checks :: "world \<Rightarrow> nat" where
  "file_checks w =
     length (filter (\<lambda>ev. case ev of PathExists n \<Rightarrow> True | _ \<Rightarrow> False) (calls w))"

subsection \<open>Observers of the control channel\<close>

text \<open>The peer accepts the connection and the request, and what it sends parses to a
  dictionary that holds the value \<open>v\<close> under \<open>data\<close>.\<close>

definition delivers_data :: "library \<Rightarrow> ipc_endpoint \<Rightarrow> pyval \<Rightarrow> bool" where
  "delivers_data lib ep v =
    (connect_error ep = None \<and> sendall_error ep = None \<and>
     (case recv_loop (recv_results ep) [] of
        Inl e \<Rightarrow> False
      | Inr response \<Rightarrow>
         (case json_loads lib response of
            Inl e \<Rightarrow> False
          | Inr d \<Rightarrow> (case d of PyDict kvs \<Rightarrow> map_of kvs ''data'' = Some v | _ \<Rightarrow> False))))"

subsection \<open>Observers of a started player\<close>

definition player_arguments :: "client \<Rightarrow> string list" where
  "player_arguments s = (case player_process s of None \<Rightarrow> [] | Some p \<Rightarrow> arguments p)"

text \<open>An option \<open>--start=...\<close> among the arguments before the target address, which is
  the last argument.\<close>

definition has_start_offset :: "string list \<Rightarrow> bool" where
  "has_start_offset args = list_ex (prefix ''--start='') (butlast args)"

definition video_only :: "format \<Rightarrow> bool" where
  "video_only f = (f_acodec f = Some ''none'')"

definition audio_only :: "format \<Rightarrow> bool" where
  "audio_only f = (f_vcodec f = Some ''none'')"

text \<open>The address of the first format of a list that meets a condition.\<close>

definition first_url :: "(format \<Rightarrow> bool) \<Rightarrow> format list \<Rightarrow> string option" where
  "first_url P fs = (case find P fs of None \<Rightarrow> None | Some f \<Rightarrow> f_url f)"

subsection \<open>Example inputs\<close>

text \<open>A format dictionary that carries only a height and a frame rate.\<close>

definition fmt_hf :: "int \<Rightarrow> int \<Rightarrow> format" where
  "fmt_hf h r =
     \<lparr>f_height = Some h, f_fps = Some r, f_acodec = None, f_vcodec = None, f_url = None\<rparr>"

text \<open>An info dictionary whose only key is \<open>formats\<close>.\<close>

definition info_of_formats :: "format list \<Rightarrow> info" where
  "info_of_formats fs =
     \<lparr>i_formats = Some fs, i_original_url = None, i_webpage_url = None, i_uploader = None,
      i_uploader_url = None, i_title = None, i_description = None, i_other = []\<rparr>"

text \<open>An info dictionary with no key at all.\<close>

definition info_empty :: info where
  "info_empty =
     \<lparr>i_formats = None, i_original_url = None, i_webpage_url = None, i_uploader = None,
      i_uploader_url = None, i_title = None, i_description = None, i_other = []\<rparr>"

text \<open>A response line of the player, and a library that parses exactly that line.\<close>

definition example_response :: string where
  \<open>example_response = ''{"data": 42.5}'' @ [CHR 0x0A]\<close>

definition example_lib :: library where
  "example_lib =
     \<lparr>json_loads = (\<lambda>r. if r = example_response
                        then Inr (PyDict [(''data'', PyFloat 42.5)])
                        else Inl (ValueError ''Expecting value'')),
      str_to_float = (\<lambda>t. None),
      fmt_float = (\<lambda>x. if x = 42.5 then ''42.5'' else ''0.0''),
      fmt_float_1f = (\<lambda>x. if x = 42.5 then ''42.5'' else ''0.0''),
      str_exception = (\<lambda>e. ''error''),
      str_container = (\<lambda>v. ''[]''),
      platform_system = ''Linux'',
      fetch_og_image = (\<lambda>u. Inr None)\<rparr>"

text \<open>A library whose parser reads every response as a dictionary with the given value
  under \<open>data\<close>.\<close>

definition lib_answering :: "pyval \<Rightarrow> library" where
  "lib_answering v = example_lib\<lparr>json_loads := (\<lambda>r. Inr (PyDict [(''data'', v)]))\<rparr>"

definition endpoint_answering :: ipc_endpoint where
  "endpoint_answering =
     \<lparr>connect_error = None, sendall_error = None, recv_results = [Inr example_response]\<rparr>"

definition endpoint_unreachable :: ipc_endpoint where
  "endpoint_unreachable =
     \<lparr>connect_error = Some (OSError ''Connection refused''), sendall_error = None,
      recv_results = []\<rparr>"

text \<open>A client that plays a video in the embedded window, with \<open>720p\<close> selected.\<close>

definition fmt_codec :: "string \<Rightarrow> string \<Rightarrow> string \<Rightarrow> format" where
  "fmt_codec a v u =
     \<lparr>f_height = None, f_fps = None, f_acodec = Some a, f_vcodec = Some v, f_url = Some u\<rparr>"

definition example_client :: "format list \<Rightarrow> client" where
  "example_client fs =
     \<lparr>current_info = Some (info_of_formats fs),
      current_video_url = Some ''https://example.org/watch?v=1'',
      qualities_available = [''1080p'', ''720p''],
      player_process = Some \<lparr>program = ''mpv'', arguments = [''https://example.org/watch?v=1'']\<rparr>,
      is_detached = False,
      playlist = [],
      video_process = None,
      audio_process = None,
      channel_avatar_url = None,
      channel_name = Some ''Channel'',
      channel_url = Some [],
      video_title = Some ''Title'',
      video_description = Some ''Text'',
      sync_timer = None,
      quality_combo = \<lparr>items = [''1080p'', ''720p''], current_index = 1\<rparr>,
      console_output = [],
      win_id = 77,
      os_commands = []\<rparr>"

text \<open>A world with empty caches, no files and no calls; three backends: one that always
  fails, one that succeeds only with the cookie file, and one that always succeeds and
  lists a channel of two videos.\<close>

definition world_empty :: world where
  "world_empty =
     \<lparr>extraction_cache = (\<lambda>k. None), channel_videos_cache = (\<lambda>k. None),
      files = (\<lambda>n. None), calls = []\<rparr>"

definition example_cookie :: cookie where
  "example_cookie =
     \<lparr>c_domain = Some ''.example.org'', c_path = Some ''/'', c_secure = Some True,
      c_expires = Some (PyInt 1700000000), c_name = Some ''SID'', c_value = Some ''abc''\<rparr>"

definition backend_failing :: backend where
  "backend_failing =
     \<lparr>extract_info = (\<lambda>fs u c. Inl (DownloadError ''Sign in to confirm'')),
      extract_flat = (\<lambda>u. Inl (DownloadError ''Unable to download'')),
      get_cookies_headless = (\<lambda>u. Inl (BrowserError ''Browser closed''))\<rparr>"

definition backend_cookies_only :: backend where
  "backend_cookies_only =
     \<lparr>extract_info = (\<lambda>fs u c. if c = Some ''cookies.txt'' \<and> fs ''cookies.txt'' \<noteq> None
                                then Inr (info_of_formats [fmt_hf 720 30])
                                else Inl (DownloadError ''Sign in to confirm'')),
      extract_flat = (\<lambda>u. Inl (DownloadError ''Unable to download'')),
      get_cookies_headless = (\<lambda>u. Inr [example_cookie])\<rparr>"

definition backend_open :: backend where
  "backend_open =
     \<lparr>extract_info = (\<lambda>fs u c. Inr (info_of_formats [fmt_hf 720 30])),
      extract_flat =
        (\<lambda>u. Inr \<lparr>l_entries = Some
           [\<lparr>e_url = Some ''v1'', e_title = Some ''First'',
             e_thumbnails = Some [\<lparr>t_url = Some ''small''\<rparr>, \<lparr>t_url = Some ''large''\<rparr>]\<rparr>,
            \<lparr>e_url = None, e_title = Some ''Playlist'', e_thumbnails = None\<rparr>,
            \<lparr>e_url = Some ''v2'', e_title = None, e_thumbnails = None\<rparr>]\<rparr>),
      get_cookies_headless = (\<lambda>u. Inr [example_cookie])\<rparr>"

text \<open>The empty world after an earlier run has left a cookie file.\<close>

definition world_with_cookies :: world where
  "world_with_cookies =
     world_empty\<lparr>files := (files world_empty)
        (''cookies.txt'' \<mapsto> cookie_file_text example_lib [example_cookie])\<rparr>"

text \<open>A cookie whose value holds a tab.\<close>

definition tab_cookie :: cookie where
  "tab_cookie = example_cookie\<lparr>c_value := Some (''a'' @ [CHR 0x09] @ ''b'')\<rparr>"

text \<open>A cookie whose expiry is a float, one whose expiry is \<open>None\<close>, and a library
  that writes that float as Python does.\<close>

definition float_cookie :: cookie where
  "float_cookie = example_cookie\<lparr>c_expires := Some (PyFloat 1700000000.5)\<rparr>"

definition none_cookie :: cookie where
  "none_cookie = example_cookie\<lparr>c_expires := Some PyNone\<rparr>"

definition cookie_lib :: library where
  "cookie_lib =
     example_lib\<lparr>fmt_float := (\<lambda>x. if x = 1700000000.5 then ''1700000000.5'' else ''0.0'')\<rparr>"

text \<open>A session cookie: no expiry, no secure flag, a host-only domain.\<close>

definition session_cookie :: cookie where
  "session_cookie =
     \<lparr>c_domain = Some ''example.org'', c_path = None, c_secure = None,
      c_expires = None, c_name = Some ''pref'', c_value = Some ''x=1''\<rparr>"

section \<open>Properties of the quality buckets\<close>

lemma ALL_QUALITIES_eq: "ALL_QUALITIES = spec_tier_order"
  by (simp add: ALL_QUALITIES_def FORMAT_MAPPING_def spec_tier_order_def)

lemma bucket_step_iff:
  "q \<in> bucket_step f A \<longleftrightarrow>
     q \<in> A \<or> (q \<in> set spec_tier_order \<and>
       spec_tier_predicate q (get_or_0 (f_height f)) (get_or_0 (f_fps f)))"
  unfolding bucket_step_def Let_def spec_tier_order_def spec_tier_predicate_def
  by (cases "q = ''2k''"; cases "q = ''1080p60''"; cases "q = ''1080p''";
      cases "q = ''720p60''"; cases "q = ''720p''"; cases "q = ''360p''";
      cases "q = ''240p''"; cases "q = ''144p''") simp_all

lemma fold_bucket_step_iff:
  "q \<in> fold bucket_step fs A \<longleftrightarrow>
     q \<in> A \<or> (q \<in> set spec_tier_order \<and> tier_satisfied fs q)"
proof (induction fs arbitrary: A)
  case Nil
  show ?case by (simp add: tier_satisfied_def)
next
  case (Cons f fs)
  show ?case
    unfolding fold_simps Cons.IH bucket_step_iff
    by (auto simp: tier_satisfied_def)
qed

lemma available_buckets_filter:
  "available_buckets info =
     (let result = filter (tier_satisfied (formats_of info)) spec_tier_order
      in if result \<noteq> [] then result else [''360p''])"
proof -
  have "filter (\<lambda>q. q \<in> fold bucket_step (formats_of info) {}) ALL_QUALITIES =
        filter (tier_satisfied (formats_of info)) spec_tier_order"
    unfolding ALL_QUALITIES_eq
    by (rule filter_cong) (simp_all add: fold_bucket_step_iff)
  then show ?thesis
    by (simp add: available_buckets_def Let_def)
qed

lemma available_buckets_subseq: "subseq (available_buckets info) spec_tier_order"
proof -
  have "subseq [''360p''] spec_tier_order"
    by (simp add: spec_tier_order_def)
  then show ?thesis
    by (simp add: available_buckets_filter Let_def)
qed

lemma filter_nonempty_iff: "filter P xs \<noteq> [] \<longleftrightarrow> (\<exists>x\<in>set xs. P x)"
  by (simp add: filter_empty_conv)

text \<open>
  Claim C1. For every info dictionary, \<open>available_buckets\<close> returns tiers in the fixed
  enumeration order (a subsequence of it). When some variant satisfies some tier's
  predicate, the result is the enumeration filtered to the satisfied tiers, so every
  returned tier is satisfied by at least one variant; when no variant satisfies any tier
  (in particular for an empty or absent variant list) the result is \<open>["360p"]\<close>.
\<close>

theorem available_buckets_tiers:
  "subseq (available_buckets info) spec_tier_order \<and>
   ((\<exists>q\<in>set spec_tier_order. tier_satisfied (formats_of info) q) \<longrightarrow>
      available_buckets info = filter (tier_satisfied (formats_of info)) spec_tier_order \<and>
      (\<forall>q\<in>set (available_buckets info). tier_satisfied (formats_of info) q)) \<and>
   ((\<forall>q\<in>set spec_tier_order. \<not> tier_satisfied (formats_of info) q) \<longrightarrow>
      available_buckets info = [''360p'']) \<and>
   (formats_of info = [] \<longrightarrow> available_buckets info = [''360p''])"
proof (intro conjI impI)
  show "subseq (available_buckets info) spec_tier_order"
    by (rule available_buckets_subseq)
next
  assume sat: "\<exists>q\<in>set spec_tier_order. tier_satisfied (formats_of info) q"
  then have ne: "filter (tier_satisfied (formats_of info)) spec_tier_order \<noteq> []"
    by (simp only: filter_nonempty_iff)
  then show eq: "available_buckets info = filter (tier_satisfied (formats_of info)) spec_tier_order"
    by (simp add: available_buckets_filter Let_def)
  show "\<forall>q\<in>set (available_buckets info). tier_satisfied (formats_of info) q"
    unfolding eq by simp
next
  assume "\<forall>q\<in>set spec_tier_order. \<not> tier_satisfied (formats_of info) q"
  then have "filter (tier_satisfied (formats_of info)) spec_tier_order = []"
    by (simp add: filter_empty_conv)
  then show "available_buckets info = [''360p'']"
    by (simp add: available_buckets_filter Let_def)
next
  assume "formats_of info = []"
  then have "filter (tier_satisfied (formats_of info)) spec_tier_order = []"
    by (simp add: filter_empty_conv tier_satisfied_def)
  then show "available_buckets info = [''360p'']"
    by (simp add: available_buckets_filter Let_def)
qed

theorem available_buckets_tiers_witness:
  "available_buckets (info_of_formats [fmt_hf 1440 60, fmt_hf 240 30]) =
     [''2k'', ''1080p60'', ''1080p'', ''720p60'', ''240p''] \<and>
   tier_satisfied [fmt_hf 1440 60, fmt_hf 240 30] ''240p'' \<and>
   available_buckets (info_of_formats [fmt_hf 100 30]) = [''360p''] \<and>
   available_buckets info_empty = [''360p'']"
proof -
  let ?fs = "[fmt_hf 1440 60, fmt_hf 240 30]"
  have fs: "formats_of (info_of_formats ?fs) = ?fs"
    by (simp add: formats_of_def info_of_formats_def)
  have sat: "tier_satisfied ?fs ''240p''"
    by (simp add: tier_satisfied_def spec_tier_predicate_def fmt_hf_def get_or_0_def)
  then have ex: "\<exists>q\<in>set spec_tier_order. tier_satisfied (formats_of (info_of_formats ?fs)) q"
    unfolding fs by (auto simp: spec_tier_order_def)
  have "available_buckets (info_of_formats ?fs) = filter (tier_satisfied ?fs) spec_tier_order"
    using available_buckets_tiers [of "info_of_formats ?fs"] ex unfolding fs by blast
  also have "\<dots> = [''2k'', ''1080p60'', ''1080p'', ''720p60'', ''240p'']"
    by (simp add: tier_satisfied_def spec_tier_predicate_def spec_tier_order_def
        fmt_hf_def get_or_0_def)
  finally have a: "available_buckets (info_of_formats ?fs) =
      [''2k'', ''1080p60'', ''1080p'', ''720p60'', ''240p'']" .
  have fs2: "formats_of (info_of_formats [fmt_hf 100 30]) = [fmt_hf 100 30]"
    by (simp add: formats_of_def info_of_formats_def)
  have "\<forall>q\<in>set spec_tier_order. \<not> tier_satisfied (formats_of (info_of_formats [fmt_hf 100 30])) q"
    unfolding fs2
    by (simp add: tier_satisfied_def spec_tier_predicate_def spec_tier_order_def
        fmt_hf_def get_or_0_def)
  then have b: "available_buckets (info_of_formats [fmt_hf 100 30]) = [''360p'']"
    using available_buckets_tiers [of "info_of_formats [fmt_hf 100 30]"] by blast
  have "formats_of info_empty = []"
    by (simp add: formats_of_def info_empty_def)
  then have c: "available_buckets info_empty = [''360p'']"
    using available_buckets_tiers [of info_empty] by blast
  from a sat b c show ?thesis by blast
qed

text \<open>
  Claim C4, as stated, fails: for the variants \<open>[{height:1080, fps:30}, {height:720, fps:60}]\<close>
  the result is not \<open>["1080p", "720p60"]\<close>.
\<close>

theorem available_buckets_example_counterexample:
  "available_buckets (info_of_formats [fmt_hf 1080 30, fmt_hf 720 60]) \<noteq> [''1080p'', ''720p60'']"
  by (simp add: available_buckets_filter Let_def formats_of_def info_of_formats_def
      tier_satisfied_def spec_tier_predicate_def spec_tier_order_def fmt_hf_def get_or_0_def)

text \<open>
  Claim C4, amended. For the variants \<open>[{height:1080, fps:30}, {height:720, fps:60}]\<close>
  \<open>available_buckets\<close> returns exactly \<open>["1080p", "720p60", "720p"]\<close>: the second variant
  satisfies the predicates of both \<open>720p60\<close> and \<open>720p\<close>, which are evaluated
  independently.
\<close>

theorem available_buckets_example:
  "available_buckets (info_of_formats [fmt_hf 1080 30, fmt_hf 720 60]) =
     [''1080p'', ''720p60'', ''720p'']"
  by (simp add: available_buckets_def Let_def formats_of_def info_of_formats_def
      bucket_step_def ALL_QUALITIES_def FORMAT_MAPPING_def fmt_hf_def get_or_0_def)

section \<open>Properties of the control-channel query\<close>

lemma get_current_playback_time_unfold:
  "get_current_playback_time lib ipc p =
     (case playback_time_try lib (ipc p) of Inr (Some x) \<Rightarrow> x | Inr None \<Rightarrow> 0 | Inl e \<Rightarrow> 0)"
  by (simp add: get_current_playback_time_def)

lemma playback_time_try_data:
  assumes "connect_error ep = None" "sendall_error ep = None"
    and "recv_loop (recv_results ep) [] = Inr response"
    and "json_loads lib response = Inr (PyDict kvs)"
    and "map_of kvs ''data'' = Some v"
  shows "playback_time_try lib ep = (case py_float lib v of Inl e \<Rightarrow> Inl e | Inr x \<Rightarrow> Inr (Some x))"
  using assms
  by (simp add: playback_time_try_def py_contains_data_def py_subscript_data_def)

lemma playback_time_try_no_data:
  assumes "recv_loop (recv_results ep) [] = Inr response"
    and "json_loads lib response = Inr (PyDict kvs)"
    and "map_of kvs ''data'' = None"
  shows "playback_time_try lib ep = Inr None \<or> (\<exists>e. playback_time_try lib ep = Inl e)"
  using assms
  by (simp add: playback_time_try_def py_contains_data_def split: option.splits)

lemma playback_time_try_malformed:
  assumes "recv_loop (recv_results ep) [] = Inr response"
    and "json_loads lib response = Inl e"
  shows "\<exists>e'. playback_time_try lib ep = Inl e'"
  using assms
  by (simp add: playback_time_try_def split: option.splits)

lemma float_overflow_bound_large: "2 ^ 53 \<le> float_overflow_bound"
  by (simp add: float_overflow_bound_def)

lemma float_of_int_small: "\<bar>n\<bar> < 2 ^ 53 \<Longrightarrow> float_of_int n = Inr (real_of_int n)"
proof -
  assume a: "\<bar>n\<bar> < 2 ^ 53"
  define m where "m = nat \<bar>n\<bar>"
  have m: "m < 2 ^ 53"
    using a by (simp add: m_def nat_less_iff)
  then have nb: "\<not> float_overflow_bound \<le> m"
    using float_overflow_bound_large by linarith
  have r: "round_to_double m = m"
    using m by (simp add: round_to_double_def)
  have v: "real m = \<bar>real_of_int n\<bar>"
    by (simp add: m_def)
  have "float_of_int n = Inr (if n < 0 then - real m else real m)"
    using nb unfolding float_of_int_def Let_def m_def [symmetric] r by simp
  then show ?thesis
    unfolding v by (cases "n < 0") simp_all
qed

lemma float_of_int_overflow:
  "float_overflow_bound \<le> nat \<bar>n\<bar> \<Longrightarrow>
     float_of_int n = Inl (OverflowError ''int too large to convert to float'')"
  by (simp add: float_of_int_def Let_def)

lemma float_of_int_rounded:
  "nat \<bar>n\<bar> < float_overflow_bound \<Longrightarrow>
     float_of_int n =
       Inr (if n < 0 then - real (round_to_double (nat \<bar>n\<bar>))
            else real (round_to_double (nat \<bar>n\<bar>)))"
  by (simp add: float_of_int_def Let_def)

lemma bit_length_pos: "m \<noteq> 0 \<Longrightarrow> bit_length m = Suc (bit_length (m div 2))"
  by (simp add: bit_length.simps [of m])

lemma bit_length_0: "bit_length 0 = 0"
  by (simp add: bit_length.simps [of 0])

lemma delivers_data_try:
  assumes "delivers_data lib ep v"
  shows "playback_time_try lib ep =
     (case py_float lib v of Inl e \<Rightarrow> Inl e | Inr x \<Rightarrow> Inr (Some x))"
proof -
  from assms obtain response kvs
    where "connect_error ep = None" "sendall_error ep = None"
      "recv_loop (recv_results ep) [] = Inr response"
      "json_loads lib response = Inr (PyDict kvs)" "map_of kvs ''data'' = Some v"
    by (auto simp: delivers_data_def split: sum.splits pyval.splits)
  then show ?thesis
    by (rule playback_time_try_data)
qed

lemma delivers_data_time:
  assumes "delivers_data lib (ipc p) v"
  shows "get_current_playback_time lib ipc p =
     (case py_float lib v of Inl e \<Rightarrow> 0 | Inr x \<Rightarrow> x)"
  by (simp add: get_current_playback_time_unfold delivers_data_try [OF assms] split: sum.splits)

lemma delivers_data_lib_answering: "delivers_data (lib_answering v) endpoint_answering v"
  by (simp add: delivers_data_def lib_answering_def endpoint_answering_def example_response_def)

text \<open>
  Claim C6, as stated, fails: a well-formed response whose \<open>data\<close> field is the number
  \<open>10^400\<close> does not yield that number. \<open>float\<close> of an integer of that size raises
  \<open>OverflowError\<close>, the exception is caught, and the result is \<open>0.0\<close>.
\<close>

theorem get_current_playback_time_counterexample:
  "delivers_data (lib_answering (PyInt (10 ^ 400))) endpoint_answering (PyInt (10 ^ 400)) \<and>
   get_current_playback_time (lib_answering (PyInt (10 ^ 400))) (\<lambda>p. endpoint_answering)
     ''/tmp/mpvsocket'' = 0 \<and>
   get_current_playback_time (lib_answering (PyInt (10 ^ 400))) (\<lambda>p. endpoint_answering)
     ''/tmp/mpvsocket'' \<noteq> 10 ^ 400"
proof -
  let ?lib = "lib_answering (PyInt (10 ^ 400))"
  have big: "float_overflow_bound \<le> nat \<bar>10 ^ 400\<bar>"
    by (simp add: float_overflow_bound_def)
  have d: "delivers_data ?lib endpoint_answering (PyInt (10 ^ 400))"
    by (rule delivers_data_lib_answering)
  have "py_float ?lib (PyInt (10 ^ 400)) =
      Inl (OverflowError ''int too large to convert to float'')"
    unfolding py_float_def by (simp only: pyval.case float_of_int_overflow [OF big])
  then have z: "get_current_playback_time ?lib (\<lambda>p. endpoint_answering) ''/tmp/mpvsocket'' = 0"
    by (simp only: delivers_data_time [where ipc = "\<lambda>p. endpoint_answering", OF d] sum.case)
  have "(0::real) \<noteq> 10 ^ 400"
    by simp
  then show ?thesis
    using d z by (simp only: simp_thms)
qed

text \<open>
  Claim C6, amended. When the channel delivers a response that parses to a dictionary
  with a numeric \<open>data\<close> field, \<open>get_current_playback_time\<close> returns: the float
  itself for a float; the integer's value for an integer of magnitude below \<open>2^53\<close>;
  the integer rounded to a double for an integer of magnitude below
  \<open>2^1024 - 2^970\<close>; and \<open>0.0\<close> for a larger integer, which \<open>float\<close> cannot
  convert. It returns \<open>0.0\<close> when the connection or the sending fails, when receiving
  fails, when the response does not parse, when the parsed dictionary has no \<open>data\<close>
  field, and for every exception raised inside the \<open>try\<close>; being a total function into
  the reals, it never raises.
\<close>

theorem get_current_playback_time_spec:
  "(delivers_data lib (ipc p) (PyFloat x) \<longrightarrow> get_current_playback_time lib ipc p = x) \<and>
   (delivers_data lib (ipc p) (PyInt n) \<and> \<bar>n\<bar> < 2 ^ 53 \<longrightarrow>
      get_current_playback_time lib ipc p = real_of_int n) \<and>
   (delivers_data lib (ipc p) (PyInt n) \<and> nat \<bar>n\<bar> < float_overflow_bound \<longrightarrow>
      get_current_playback_time lib ipc p =
        (if n < 0 then - real (round_to_double (nat \<bar>n\<bar>))
         else real (round_to_double (nat \<bar>n\<bar>)))) \<and>
   (delivers_data lib (ipc p) (PyInt n) \<and> float_overflow_bound \<le> nat \<bar>n\<bar> \<longrightarrow>
      get_current_playback_time lib ipc p = 0) \<and>
   (connect_error (ipc p) \<noteq> None \<longrightarrow> get_current_playback_time lib ipc p = 0) \<and>
   (sendall_error (ipc p) \<noteq> None \<longrightarrow> get_current_playback_time lib ipc p = 0) \<and>
   (recv_loop (recv_results (ipc p)) [] = Inl e \<longrightarrow> get_current_playback_time lib ipc p = 0) \<and>
   (recv_loop (recv_results (ipc p)) [] = Inr response \<and> json_loads lib response = Inl e
      \<longrightarrow> get_current_playback_time lib ipc p = 0) \<and>
   (recv_loop (recv_results (ipc p)) [] = Inr response \<and>
    json_loads lib response = Inr (PyDict kvs) \<and> map_of kvs ''data'' = None
      \<longrightarrow> get_current_playback_time lib ipc p = 0) \<and>
   (playback_time_try lib (ipc p) = Inl e \<longrightarrow> get_current_playback_time lib ipc p = 0) \<and>
   (playback_time_try lib (ipc p) = Inr None \<longrightarrow> get_current_playback_time lib ipc p = 0)"
proof (intro conjI impI)
  assume "delivers_data lib (ipc p) (PyFloat x)"
  then show "get_current_playback_time lib ipc p = x"
    by (simp add: delivers_data_time py_float_def)
next
  assume "delivers_data lib (ipc p) (PyInt n) \<and> \<bar>n\<bar> < 2 ^ 53"
  then have d: "delivers_data lib (ipc p) (PyInt n)" and s: "\<bar>n\<bar> < 2 ^ 53"
    by blast+
  show "get_current_playback_time lib ipc p = real_of_int n"
    by (simp add: delivers_data_time [where ipc = ipc and p = p, OF d] py_float_def float_of_int_small [OF s])
next
  assume "delivers_data lib (ipc p) (PyInt n) \<and> nat \<bar>n\<bar> < float_overflow_bound"
  then have d: "delivers_data lib (ipc p) (PyInt n)" and s: "nat \<bar>n\<bar> < float_overflow_bound"
    by blast+
  show "get_current_playback_time lib ipc p =
        (if n < 0 then - real (round_to_double (nat \<bar>n\<bar>))
         else real (round_to_double (nat \<bar>n\<bar>)))"
    by (simp only: delivers_data_time [where ipc = ipc and p = p, OF d] py_float_def pyval.case
        float_of_int_rounded [OF s] sum.case)
next
  assume "delivers_data lib (ipc p) (PyInt n) \<and> float_overflow_bound \<le> nat \<bar>n\<bar>"
  then have d: "delivers_data lib (ipc p) (PyInt n)" and s: "float_overflow_bound \<le> nat \<bar>n\<bar>"
    by blast+
  show "get_current_playback_time lib ipc p = 0"
    by (simp add: delivers_data_time [where ipc = ipc and p = p, OF d] py_float_def float_of_int_overflow [OF s])
next
  assume "connect_error (ipc p) \<noteq> None"
  then show "get_current_playback_time lib ipc p = 0"
    by (auto simp: get_current_playback_time_unfold playback_time_try_def)
next
  assume "sendall_error (ipc p) \<noteq> None"
  then show "get_current_playback_time lib ipc p = 0"
    by (auto simp: get_current_playback_time_unfold playback_time_try_def split: option.splits)
next
  assume "recv_loop (recv_results (ipc p)) [] = Inl e"
  then show "get_current_playback_time lib ipc p = 0"
    by (auto simp: get_current_playback_time_unfold playback_time_try_def split: option.splits)
next
  assume "recv_loop (recv_results (ipc p)) [] = Inr response \<and> json_loads lib response = Inl e"
  then show "get_current_playback_time lib ipc p = 0"
    using playback_time_try_malformed [of "ipc p" response lib e]
    by (auto simp: get_current_playback_time_unfold)
next
  assume "recv_loop (recv_results (ipc p)) [] = Inr response \<and>
    json_loads lib response = Inr (PyDict kvs) \<and> map_of kvs ''data'' = None"
  then show "get_current_playback_time lib ipc p = 0"
    using playback_time_try_no_data [of "ipc p" response lib kvs]
    by (auto simp: get_current_playback_time_unfold)
next
  assume "playback_time_try lib (ipc p) = Inl e"
  then show "get_current_playback_time lib ipc p = 0"
    by (simp add: get_current_playback_time_unfold)
next
  assume "playback_time_try lib (ipc p) = Inr None"
  then show "get_current_playback_time lib ipc p = 0"
    by (simp add: get_current_playback_time_unfold)
qed

theorem get_current_playback_time_spec_witness:
  "get_current_playback_time example_lib (\<lambda>p. endpoint_answering) ''/tmp/mpvsocket'' = 42.5 \<and>
   get_current_playback_time (lib_answering (PyInt 17)) (\<lambda>p. endpoint_answering)
     ''/tmp/mpvsocket'' = 17 \<and>
   get_current_playback_time (lib_answering (PyInt 9007199254740995)) (\<lambda>p. endpoint_answering)
     ''/tmp/mpvsocket'' = 9007199254740996 \<and>
   get_current_playback_time (lib_answering (PyInt (2 ^ 1024))) (\<lambda>p. endpoint_answering)
     ''/tmp/mpvsocket'' = 0 \<and>
   get_current_playback_time example_lib (\<lambda>p. endpoint_unreachable) ''/tmp/mpvsocket'' = 0"
proof -
  have ok: "delivers_data example_lib endpoint_answering (PyFloat 42.5)"
    by (simp add: delivers_data_def endpoint_answering_def example_lib_def example_response_def)
  have a: "get_current_playback_time example_lib (\<lambda>p. endpoint_answering) ''/tmp/mpvsocket'' = 42.5"
    using get_current_playback_time_spec
      [of example_lib "\<lambda>p. endpoint_answering" "''/tmp/mpvsocket''" "42.5"] ok
    by blast
  have s17: "\<bar>17::int\<bar> < 2 ^ 53" by simp
  have b: "get_current_playback_time (lib_answering (PyInt 17)) (\<lambda>p. endpoint_answering)
     ''/tmp/mpvsocket'' = real_of_int 17"
    using get_current_playback_time_spec
      [of "lib_answering (PyInt 17)" "\<lambda>p. endpoint_answering" "''/tmp/mpvsocket''" _ 17]
      delivers_data_lib_answering [of "PyInt 17"] s17
    by blast
  have in_range: "nat \<bar>9007199254740995\<bar> < float_overflow_bound"
    by (simp add: float_overflow_bound_def)
  have rd: "round_to_double 9007199254740995 = 9007199254740996"
    by (simp add: round_to_double_def Let_def bit_length_pos bit_length_0)
  have "get_current_playback_time (lib_answering (PyInt 9007199254740995)) (\<lambda>p. endpoint_answering)
     ''/tmp/mpvsocket'' =
        (if (9007199254740995 :: int) < 0 then - real (round_to_double (nat \<bar>9007199254740995\<bar>))
         else real (round_to_double (nat \<bar>9007199254740995\<bar>)))"
    using get_current_playback_time_spec
      [of "lib_answering (PyInt 9007199254740995)" "\<lambda>p. endpoint_answering" "''/tmp/mpvsocket''"
          _ "9007199254740995"]
      delivers_data_lib_answering [of "PyInt 9007199254740995"] in_range
    by blast
  then have c: "get_current_playback_time (lib_answering (PyInt 9007199254740995))
      (\<lambda>p. endpoint_answering) ''/tmp/mpvsocket'' = 9007199254740996"
    by (simp add: rd)
  have over: "float_overflow_bound \<le> nat \<bar>2 ^ 1024\<bar>"
    by (simp add: float_overflow_bound_def)
  have d: "get_current_playback_time (lib_answering (PyInt (2 ^ 1024))) (\<lambda>p. endpoint_answering)
     ''/tmp/mpvsocket'' = 0"
    using get_current_playback_time_spec
      [of "lib_answering (PyInt (2 ^ 1024))" "\<lambda>p. endpoint_answering" "''/tmp/mpvsocket''"
          _ "2 ^ 1024"]
      delivers_data_lib_answering [of "PyInt (2 ^ 1024)"] over
    by blast
  have "connect_error endpoint_unreachable \<noteq> None"
    by (simp add: endpoint_unreachable_def)
  then have e: "get_current_playback_time example_lib (\<lambda>p. endpoint_unreachable) ''/tmp/mpvsocket'' = 0"
    using get_current_playback_time_spec [of example_lib "\<lambda>p. endpoint_unreachable" "''/tmp/mpvsocket''"]
    by blast
  from a b c d e show ?thesis by simp
qed

section \<open>Properties of the merged launch\<close>

lemma mpv_format_of_unknown: "q \<notin> set ALL_QUALITIES \<Longrightarrow> mpv_format_of q = ''best''"
  by (simp add: mpv_format_of_def ALL_QUALITIES_def map_of_eq_None_iff [THEN iffD2])

lemma mpv_format_of_known:
  "q \<in> set ALL_QUALITIES \<Longrightarrow> map_of FORMAT_MAPPING q = Some (mpv_format_of q)"
proof -
  assume "q \<in> set ALL_QUALITIES"
  then have "map_of FORMAT_MAPPING q \<noteq> None"
    by (simp add: ALL_QUALITIES_def map_of_eq_None_iff)
  then show ?thesis
    by (auto simp: mpv_format_of_def)
qed

lemma launch_mpv_merged_no_url:
  "\<not> truthy_str (current_video_url s) \<Longrightarrow>
     launch_mpv_merged lib q t s = console_append ''No URL to play.'' s"
  by (simp add: launch_mpv_merged_def truthy_str_def split: option.splits)

lemma player_process_kill_mpv: "player_process (kill_mpv lib s) = player_process s"
  by (simp add: kill_mpv_def Let_def os_system_def console_append_def)

lemma launch_mpv_merged_arguments:
  assumes "current_video_url s = Some u" "u \<noteq> []"
  shows "player_process (launch_mpv_merged lib q t s) =
     Some \<lparr>program = ''mpv'',
           arguments =
             (if is_detached s then [] else [''--wid='' @ py_str_int (win_id s)]) @
             (if t > 0 then [''--start='' @ fmt_float lib t] else []) @
             [''--osc'', ''--cache=yes'', ''--demuxer-thread=yes'',
              ''--ytdl-format='' @ mpv_format_of q, ''--log-file='' @ LOG_FILE,
              ''--msg-level=all=v'', ''--input-ipc-server=/tmp/mpvsocket'', u]\<rparr>"
  using assms
  by (simp add: launch_mpv_merged_def Let_def console_append_def)

text \<open>
  Claim C10. When there is a video address, \<open>launch_mpv_merged\<close> starts \<open>mpv\<close> with
  a \<open>--start=\<close> option among the arguments before the target address if and only if
  the start time is greater than 0 (so a start time of \<open>0.0\<close> gives no such option),
  and that option carries the given start time. The format filter handed to the player
  is \<open>best\<close> for every label outside \<open>ALL_QUALITIES\<close>, and the entry of
  \<open>FORMAT_MAPPING\<close> for a label inside.
\<close>

theorem launch_mpv_merged_start_offset:
  "(truthy_str (current_video_url s) \<longrightarrow>
      map_option program (player_process (launch_mpv_merged lib q t s)) = Some ''mpv'' \<and>
      (has_start_offset (player_arguments (launch_mpv_merged lib q t s)) \<longleftrightarrow> t > 0) \<and>
      (t > 0 \<longrightarrow> (''--start='' @ fmt_float lib t) \<in>
                    set (butlast (player_arguments (launch_mpv_merged lib q t s)))) \<and>
      (''--ytdl-format='' @ mpv_format_of q) \<in>
         set (butlast (player_arguments (launch_mpv_merged lib q t s))) \<and>
      Some (last (player_arguments (launch_mpv_merged lib q t s))) = current_video_url s) \<and>
   (q \<notin> set ALL_QUALITIES \<longrightarrow> mpv_format_of q = ''best'') \<and>
   (q \<in> set ALL_QUALITIES \<longrightarrow> map_of FORMAT_MAPPING q = Some (mpv_format_of q))"
proof (intro conjI impI)
  assume "truthy_str (current_video_url s)"
  then obtain u where u: "current_video_url s = Some u" "u \<noteq> []"
    by (auto simp: truthy_str_def split: option.splits)
  note args = launch_mpv_merged_arguments [OF u, of lib q t]
  show "map_option program (player_process (launch_mpv_merged lib q t s)) = Some ''mpv''"
    by (simp add: args)
  show "has_start_offset (player_arguments (launch_mpv_merged lib q t s)) \<longleftrightarrow> t > 0"
    by (simp add: args player_arguments_def has_start_offset_def LOG_FILE_def)
  show "Some (last (player_arguments (launch_mpv_merged lib q t s))) = current_video_url s"
    by (simp add: args player_arguments_def u)
  show "(''--ytdl-format='' @ mpv_format_of q) \<in>
         set (butlast (player_arguments (launch_mpv_merged lib q t s)))"
    by (simp add: args player_arguments_def butlast_append)
  assume "t > 0"
  then show "(''--start='' @ fmt_float lib t) \<in>
                    set (butlast (player_arguments (launch_mpv_merged lib q t s)))"
    by (simp add: args player_arguments_def butlast_append)
next
  assume "q \<notin> set ALL_QUALITIES"
  then show "mpv_format_of q = ''best''" by (rule mpv_format_of_unknown)
next
  assume "q \<in> set ALL_QUALITIES"
  then show "map_of FORMAT_MAPPING q = Some (mpv_format_of q)" by (rule mpv_format_of_known)
qed

theorem launch_mpv_merged_start_offset_witness:
  "has_start_offset (player_arguments (launch_mpv_merged example_lib ''720p'' 42.5 (example_client []))) \<and>
   ''--start=42.5'' \<in> set (player_arguments (launch_mpv_merged example_lib ''720p'' 42.5 (example_client []))) \<and>
   \<not> has_start_offset (player_arguments (launch_mpv_merged example_lib ''720p'' 0 (example_client []))) \<and>
   mpv_format_of ''4k'' = ''best'' \<and>
   mpv_format_of ''720p'' = ''bestvideo[height>=720][height<1080]+bestaudio/best''"
proof -
  have url: "truthy_str (current_video_url (example_client []))"
    by (simp add: example_client_def truthy_str_def)
  have pos: "(0::real) < 42.5" by simp
  have a: "has_start_offset (player_arguments (launch_mpv_merged example_lib ''720p'' 42.5 (example_client [])))"
    using launch_mpv_merged_start_offset [of "example_client []" example_lib "''720p''" "42.5"] url pos
    by blast
  have "(''--start='' @ fmt_float example_lib 42.5) \<in>
      set (butlast (player_arguments (launch_mpv_merged example_lib ''720p'' 42.5 (example_client []))))"
    using launch_mpv_merged_start_offset [of "example_client []" example_lib "''720p''" "42.5"] url pos
    by blast
  then have b: "''--start=42.5'' \<in> set (player_arguments (launch_mpv_merged example_lib ''720p'' 42.5 (example_client [])))"
    by (auto simp: example_lib_def dest: in_set_butlastD)
  have c: "\<not> has_start_offset (player_arguments (launch_mpv_merged example_lib ''720p'' 0 (example_client [])))"
    using launch_mpv_merged_start_offset [of "example_client []" example_lib "''720p''" "0"] url
    by simp
  have "''4k'' \<notin> set ALL_QUALITIES"
    by (simp add: ALL_QUALITIES_def FORMAT_MAPPING_def)
  then have d: "mpv_format_of ''4k'' = ''best''"
    using launch_mpv_merged_start_offset [of "example_client []" example_lib "''4k''" "0"]
    by blast
  have "''720p'' \<in> set ALL_QUALITIES"
    by (simp add: ALL_QUALITIES_def FORMAT_MAPPING_def)
  then have "map_of FORMAT_MAPPING ''720p'' = Some (mpv_format_of ''720p'')"
    using launch_mpv_merged_start_offset [of "example_client []" example_lib "''720p''" "0"]
    by blast
  then have e: "mpv_format_of ''720p'' = ''bestvideo[height>=720][height<1080]+bestaudio/best''"
    by (simp add: FORMAT_MAPPING_def)
  from a b c d e show ?thesis by blast
qed

section \<open>Properties of the quality change\<close>

lemma on_quality_changed_active:
  assumes "truthy_str (current_video_url s)" "player_process s \<noteq> None"
  shows "on_quality_changed lib ipc s =
     launch_mpv_merged lib (currentText (quality_combo s))
       (get_current_playback_time lib ipc ''/tmp/mpvsocket'')
       (console_append
          (''Switching quality to '' @ currentText (quality_combo s) @ '' at '' @
           fmt_float_1f lib (get_current_playback_time lib ipc ''/tmp/mpvsocket'') @ ''s'') s)"
  using assms by (auto simp: on_quality_changed_def Let_def)

lemma current_video_url_console_append [simp]:
  "current_video_url (console_append m s) = current_video_url s"
  by (simp add: console_append_def)

lemma start_option_in_arguments:
  assumes "truthy_str (current_video_url s)" "t > 0"
  shows "(''--start='' @ fmt_float lib t) \<in> set (player_arguments (launch_mpv_merged lib q t s))"
proof -
  from assms(1) obtain u where u: "current_video_url s = Some u" "u \<noteq> []"
    by (auto simp: truthy_str_def split: option.splits)
  show ?thesis
    using assms(2) by (simp add: launch_mpv_merged_arguments [OF u] player_arguments_def)
qed

lemma no_start_option_at_zero:
  assumes "truthy_str (current_video_url s)"
  shows "\<not> has_start_offset (player_arguments (launch_mpv_merged lib q 0 s))"
proof -
  from assms(1) obtain u where u: "current_video_url s = Some u" "u \<noteq> []"
    by (auto simp: truthy_str_def split: option.splits)
  show ?thesis
    by (simp add: launch_mpv_merged_arguments [OF u] player_arguments_def has_start_offset_def
        LOG_FILE_def)
qed

text \<open>
  Claim C5. With an active session (a video address and a player process),
  \<open>on_quality_changed\<close> is the merged launch for the selected quality with the start
  time that the offset query returned: when the query returns \<open>t\<close>, the launch
  receives \<open>t\<close>, and for \<open>t > 0\<close> the player gets the option \<open>--start=t\<close>. When the
  query fails (an exception inside the query, or a response without \<open>data\<close>), the
  launch receives \<open>0\<close> and the player gets no start option.
\<close>

theorem on_quality_changed_offset:
  "truthy_str (current_video_url s) \<and> player_process s \<noteq> None \<longrightarrow>
     (get_current_playback_time lib ipc ''/tmp/mpvsocket'' = t \<longrightarrow>
        on_quality_changed lib ipc s =
          launch_mpv_merged lib (currentText (quality_combo s)) t
            (console_append
               (''Switching quality to '' @ currentText (quality_combo s) @ '' at '' @
                fmt_float_1f lib t @ ''s'') s) \<and>
        (t > 0 \<longrightarrow> (''--start='' @ fmt_float lib t) \<in>
                       set (player_arguments (on_quality_changed lib ipc s)))) \<and>
     (playback_time_try lib (ipc ''/tmp/mpvsocket'') = Inl e \<or>
      playback_time_try lib (ipc ''/tmp/mpvsocket'') = Inr None \<longrightarrow>
        on_quality_changed lib ipc s =
          launch_mpv_merged lib (currentText (quality_combo s)) 0
            (console_append
               (''Switching quality to '' @ currentText (quality_combo s) @ '' at '' @
                fmt_float_1f lib 0 @ ''s'') s) \<and>
        \<not> has_start_offset (player_arguments (on_quality_changed lib ipc s)))"
proof (intro impI)
  assume "truthy_str (current_video_url s) \<and> player_process s \<noteq> None"
  then have act: "truthy_str (current_video_url s)" "player_process s \<noteq> None"
    by simp_all
  note eq = on_quality_changed_active [OF act, of lib ipc]
  show "(get_current_playback_time lib ipc ''/tmp/mpvsocket'' = t \<longrightarrow>
        on_quality_changed lib ipc s =
          launch_mpv_merged lib (currentText (quality_combo s)) t
            (console_append
               (''Switching quality to '' @ currentText (quality_combo s) @ '' at '' @
                fmt_float_1f lib t @ ''s'') s) \<and>
        (t > 0 \<longrightarrow> (''--start='' @ fmt_float lib t) \<in>
                       set (player_arguments (on_quality_changed lib ipc s)))) \<and>
     (playback_time_try lib (ipc ''/tmp/mpvsocket'') = Inl e \<or>
      playback_time_try lib (ipc ''/tmp/mpvsocket'') = Inr None \<longrightarrow>
        on_quality_changed lib ipc s =
          launch_mpv_merged lib (currentText (quality_combo s)) 0
            (console_append
               (''Switching quality to '' @ currentText (quality_combo s) @ '' at '' @
                fmt_float_1f lib 0 @ ''s'') s) \<and>
        \<not> has_start_offset (player_arguments (on_quality_changed lib ipc s)))"
  proof (intro conjI impI)
    assume t: "get_current_playback_time lib ipc ''/tmp/mpvsocket'' = t"
    let ?s1 = "console_append
               (''Switching quality to '' @ currentText (quality_combo s) @ '' at '' @
                fmt_float_1f lib t @ ''s'') s"
    show eq_t: "on_quality_changed lib ipc s =
          launch_mpv_merged lib (currentText (quality_combo s)) t ?s1"
      using eq t by simp
    have url: "truthy_str (current_video_url ?s1)"
      using act(1) by simp
    assume "t > 0"
    from start_option_in_arguments [OF url this]
    show "(''--start='' @ fmt_float lib t) \<in>
                       set (player_arguments (on_quality_changed lib ipc s))"
      unfolding eq_t .
  next
    assume "playback_time_try lib (ipc ''/tmp/mpvsocket'') = Inl e \<or>
      playback_time_try lib (ipc ''/tmp/mpvsocket'') = Inr None"
    then have z: "get_current_playback_time lib ipc ''/tmp/mpvsocket'' = 0"
      by (auto simp: get_current_playback_time_unfold)
    let ?s1 = "console_append
               (''Switching quality to '' @ currentText (quality_combo s) @ '' at '' @
                fmt_float_1f lib 0 @ ''s'') s"
    show eq_0: "on_quality_changed lib ipc s =
          launch_mpv_merged lib (currentText (quality_combo s)) 0 ?s1"
      using eq z by simp
    have url: "truthy_str (current_video_url ?s1)"
      using act(1) by simp
    from no_start_option_at_zero [OF url]
    show "\<not> has_start_offset (player_arguments (on_quality_changed lib ipc s))"
      unfolding eq_0 .
  qed
qed

theorem on_quality_changed_offset_witness:
  "on_quality_changed example_lib (\<lambda>p. endpoint_answering) (example_client []) =
     launch_mpv_merged example_lib ''720p'' 42.5
       (console_append ''Switching quality to 720p at 42.5s'' (example_client [])) \<and>
   ''--start=42.5'' \<in>
     set (player_arguments (on_quality_changed example_lib (\<lambda>p. endpoint_answering) (example_client []))) \<and>
   on_quality_changed example_lib (\<lambda>p. endpoint_unreachable) (example_client []) =
     launch_mpv_merged example_lib ''720p'' 0
       (console_append ''Switching quality to 720p at 0.0s'' (example_client []))"
proof -
  have act: "truthy_str (current_video_url (example_client [])) \<and>
      player_process (example_client []) \<noteq> None"
    by (simp add: example_client_def truthy_str_def)
  have q: "currentText (quality_combo (example_client [])) = ''720p''"
    by (simp add: example_client_def currentText_def)
  have t: "get_current_playback_time example_lib (\<lambda>p. endpoint_answering) ''/tmp/mpvsocket'' = 42.5"
    by (simp add: get_current_playback_time_def playback_time_try_def endpoint_answering_def
        example_lib_def example_response_def py_contains_data_def py_subscript_data_def
        py_float_def)
  have f: "fmt_float_1f example_lib 42.5 = ''42.5''" "fmt_float example_lib 42.5 = ''42.5''"
      "fmt_float_1f example_lib 0 = ''0.0''"
    by (simp_all add: example_lib_def)
  have pos: "(0::real) < 42.5" by simp
  have m: "''Switching quality to '' @ ''720p'' @ '' at '' @ ''42.5'' @ ''s'' =
      ''Switching quality to 720p at 42.5s''"
    "''Switching quality to '' @ ''720p'' @ '' at '' @ ''0.0'' @ ''s'' =
      ''Switching quality to 720p at 0.0s''"
    "''--start='' @ ''42.5'' = ''--start=42.5''"
    by simp_all
  have "on_quality_changed example_lib (\<lambda>p. endpoint_answering) (example_client []) =
     launch_mpv_merged example_lib (currentText (quality_combo (example_client []))) 42.5
       (console_append
          (''Switching quality to '' @ currentText (quality_combo (example_client [])) @
           '' at '' @ fmt_float_1f example_lib 42.5 @ ''s'') (example_client [])) \<and>
   (''--start='' @ fmt_float example_lib 42.5) \<in>
     set (player_arguments (on_quality_changed example_lib (\<lambda>p. endpoint_answering) (example_client [])))"
    using on_quality_changed_offset
      [of "example_client []" example_lib "\<lambda>p. endpoint_answering" "42.5"] act t pos
    by blast
  then have a: "on_quality_changed example_lib (\<lambda>p. endpoint_answering) (example_client []) =
     launch_mpv_merged example_lib ''720p'' 42.5
       (console_append ''Switching quality to 720p at 42.5s'' (example_client [])) \<and>
   ''--start=42.5'' \<in>
     set (player_arguments (on_quality_changed example_lib (\<lambda>p. endpoint_answering) (example_client [])))"
    unfolding q f m .
  have "playback_time_try example_lib endpoint_unreachable = Inl (OSError ''Connection refused'')"
    by (simp add: playback_time_try_def endpoint_unreachable_def)
  then have "on_quality_changed example_lib (\<lambda>p. endpoint_unreachable) (example_client []) =
     launch_mpv_merged example_lib (currentText (quality_combo (example_client []))) 0
       (console_append
          (''Switching quality to '' @ currentText (quality_combo (example_client [])) @
           '' at '' @ fmt_float_1f example_lib 0 @ ''s'') (example_client []))"
    using on_quality_changed_offset
      [of "example_client []" example_lib "\<lambda>p. endpoint_unreachable" 0 "OSError ''Connection refused''"] act
    by blast
  then have b: "on_quality_changed example_lib (\<lambda>p. endpoint_unreachable) (example_client []) =
     launch_mpv_merged example_lib ''720p'' 0
       (console_append ''Switching quality to 720p at 0.0s'' (example_client []))"
    unfolding q f m .
  from a b show ?thesis by blast
qed

section \<open>Properties of the extraction callback\<close>

lemma console_append_fields [simp]:
  "current_info (console_append m s) = current_info s"
  "qualities_available (console_append m s) = qualities_available s"
  "player_process (console_append m s) = player_process s"
  "video_process (console_append m s) = video_process s"
  "audio_process (console_append m s) = audio_process s"
  "sync_timer (console_append m s) = sync_timer s"
  "is_detached (console_append m s) = is_detached s"
  "win_id (console_append m s) = win_id s"
  "quality_combo (console_append m s) = quality_combo s"
  "os_commands (console_append m s) = os_commands s"
  "console_output (console_append m s) = console_output s @ [m]"
  by (simp_all add: console_append_def)

lemma kill_mpv_fields [simp]:
  "current_info (kill_mpv lib s) = current_info s"
  "current_video_url (kill_mpv lib s) = current_video_url s"
  "qualities_available (kill_mpv lib s) = qualities_available s"
  "player_process (kill_mpv lib s) = player_process s"
  "video_process (kill_mpv lib s) = video_process s"
  "audio_process (kill_mpv lib s) = audio_process s"
  "sync_timer (kill_mpv lib s) = sync_timer s"
  "is_detached (kill_mpv lib s) = is_detached s"
  "win_id (kill_mpv lib s) = win_id s"
  "quality_combo (kill_mpv lib s) = quality_combo s"
  by (simp_all add: kill_mpv_def Let_def os_system_def console_append_def)

lemma console_output_kill_mpv:
  "set (console_output s) \<subseteq> set (console_output (kill_mpv lib s))"
  by (auto simp: kill_mpv_def Let_def os_system_def console_append_def)

lemma launch_mpv_merged_fields [simp]:
  "current_info (launch_mpv_merged lib q t s) = current_info s"
  "current_video_url (launch_mpv_merged lib q t s) = current_video_url s"
  "qualities_available (launch_mpv_merged lib q t s) = qualities_available s"
  "video_process (launch_mpv_merged lib q t s) = video_process s"
  "audio_process (launch_mpv_merged lib q t s) = audio_process s"
  "sync_timer (launch_mpv_merged lib q t s) = sync_timer s"
  "is_detached (launch_mpv_merged lib q t s) = is_detached s"
  "quality_combo (launch_mpv_merged lib q t s) = quality_combo s"
  by (simp_all add: launch_mpv_merged_def Let_def split: option.splits)

lemma on_extraction_done_success_info:
  "current_info (on_extraction_done lib (Inr (mode, info)) s) = Some info \<and>
   qualities_available (on_extraction_done lib (Inr (mode, info)) s) = available_buckets info"
  by (simp add: on_extraction_done_def Let_def)

text \<open>
  Claim C8. When the worker delivers an exception, \<open>on_extraction_done\<close> changes nothing
  but the console: the new state is the old one with the message \<open>Extraction error: ...\<close>
  appended. The info dictionary, the video address, the title, the description, the
  channel fields, the list and the selector of qualities, the process handles, the
  detach flag, the timer and the commands given to the system are what they were.
\<close>

theorem on_extraction_done_error:
  "on_extraction_done lib (Inl e) s =
     s\<lparr>console_output := console_output s @ [''Extraction error: '' @ str_exception lib e]\<rparr> \<and>
   current_info (on_extraction_done lib (Inl e) s) = current_info s \<and>
   current_video_url (on_extraction_done lib (Inl e) s) = current_video_url s \<and>
   video_title (on_extraction_done lib (Inl e) s) = video_title s \<and>
   video_description (on_extraction_done lib (Inl e) s) = video_description s \<and>
   channel_name (on_extraction_done lib (Inl e) s) = channel_name s \<and>
   channel_url (on_extraction_done lib (Inl e) s) = channel_url s \<and>
   channel_avatar_url (on_extraction_done lib (Inl e) s) = channel_avatar_url s \<and>
   qualities_available (on_extraction_done lib (Inl e) s) = qualities_available s \<and>
   quality_combo (on_extraction_done lib (Inl e) s) = quality_combo s \<and>
   player_process (on_extraction_done lib (Inl e) s) = player_process s \<and>
   video_process (on_extraction_done lib (Inl e) s) = video_process s \<and>
   audio_process (on_extraction_done lib (Inl e) s) = audio_process s \<and>
   is_detached (on_extraction_done lib (Inl e) s) = is_detached s \<and>
   sync_timer (on_extraction_done lib (Inl e) s) = sync_timer s \<and>
   os_commands (on_extraction_done lib (Inl e) s) = os_commands s"
  by (simp add: on_extraction_done_def console_append_def)

section \<open>Properties of the separate-streams launch\<close>

lemma pick_url_wf:
  "truthy_str (f_url f) \<Longrightarrow>
     pick_url f codec found =
       Inr (if codec = Some ''none'' \<and> \<not> truthy_str found then f_url f else found)"
  by (auto simp: pick_url_def truthy_str_def split: option.splits)

lemma find_streams_wf:
  "\<forall>f\<in>set fs. truthy_str (f_url f) \<Longrightarrow>
     find_streams fs v a =
       Inr (if truthy_str v then v else (case find video_only fs of None \<Rightarrow> v | Some f \<Rightarrow> f_url f),
            if truthy_str a then a else (case find audio_only fs of None \<Rightarrow> a | Some f \<Rightarrow> f_url f))"
proof (induction fs arbitrary: v a)
  case Nil
  show ?case by simp
next
  case (Cons f fs)
  then have f: "truthy_str (f_url f)" and fs: "\<forall>f\<in>set fs. truthy_str (f_url f)"
    by simp_all
  show ?case
    unfolding find_streams.simps pick_url_wf [OF f]
    using f by (simp add: Cons.IH [OF fs] video_only_def audio_only_def)
qed

lemma find_streams_initial:
  "\<forall>f\<in>set fs. truthy_str (f_url f) \<Longrightarrow>
     find_streams fs None None = Inr (first_url video_only fs, first_url audio_only fs)"
  by (simp add: find_streams_wf first_url_def truthy_str_def)

lemma first_url_truthy:
  assumes "\<forall>f\<in>set fs. truthy_str (f_url f)"
  shows "truthy_str (first_url P fs) \<longleftrightarrow> list_ex P fs"
proof (cases "find P fs")
  case None
  then have "\<not> list_ex P fs"
    by (simp add: find_None_iff list_ex_iff)
  moreover have "first_url P fs = None"
    by (simp add: first_url_def None)
  ultimately show ?thesis
    by (simp add: truthy_str_def)
next
  case (Some f)
  then have "f \<in> set fs" "P f"
    by (auto simp: find_Some_iff)
  then show ?thesis
    using assms Some by (auto simp: first_url_def list_ex_iff)
qed

lemma console_output_launch_mpv_merged:
  "set (console_output s) \<subseteq> set (console_output (launch_mpv_merged lib q t s))"
proof (cases "truthy_str (current_video_url s)")
  case False
  then show ?thesis
    by (auto simp: launch_mpv_merged_no_url)
next
  case True
  then obtain u where u: "current_video_url s = Some u" "u \<noteq> []"
    by (auto simp: truthy_str_def split: option.splits)
  show ?thesis
    using console_output_kill_mpv [of s lib]
    by (auto simp: launch_mpv_merged_def Let_def u)
qed

lemma watch_separate_streams_found:
  assumes "\<not> info_falsy (current_info s)" "current_info s = Some info"
    and "find_streams (formats_of info) None None = Inr (Some vu, Some au)"
    and "vu \<noteq> []" "au \<noteq> []"
  shows "\<exists>s'. watch_separate_streams lib s = Inr s' \<and>
      video_process s' =
        Some \<lparr>program = ''mpv'',
              arguments =
                (if is_detached s then [] else [''--wid='' @ py_str_int (win_id s)]) @
                [''--no-audio'', ''--osc'', ''--cache=yes'', ''--demuxer-thread=yes'',
                 ''--input-ipc-server=/tmp/mpv_video'', vu]\<rparr> \<and>
      audio_process s' =
        Some \<lparr>program = ''mpv'',
              arguments =
                [''--no-video'', ''--osc'', ''--cache=yes'', ''--demuxer-thread=yes'',
                 ''--input-ipc-server=/tmp/mpv_audio'', au]\<rparr> \<and>
      sync_timer s' = Some 1000 \<and>
      player_process s' = player_process s \<and>
      set (console_output s) \<union> {''Launching separate mpv processes for video and audio.''}
        \<subseteq> set (console_output s')"
  using assms console_output_kill_mpv [of s lib]
  by (auto simp: watch_separate_streams_def Let_def truthy_str_def)


text \<open>
  Claim C7. Let the client hold an info dictionary whose formats all carry a non-empty
  address. If the formats contain no video-only format (\<open>acodec\<close> equal to \<open>none\<close>)
  or no audio-only format (\<open>vcodec\<close> equal to \<open>none\<close>), then
  \<open>watch_separate_streams\<close> is the merged launch at the selected quality, after the
  notice \<open>No separate streams found; fallback merged.\<close> on the console; with a video
  address set, that launch starts the player with the filter of the selected quality
  and starts neither separate process nor the timer. Otherwise it starts two \<open>mpv\<close>
  processes, for the first video-only and the first audio-only address, with the control
  channels \<open>/tmp/mpv_video\<close> and \<open>/tmp/mpv_audio\<close>, and starts the timer.
\<close>

theorem watch_separate_streams_spec:
  "current_info s = Some info \<and> \<not> info_falsy (current_info s) \<and>
   (\<forall>f\<in>set (formats_of info). truthy_str (f_url f)) \<longrightarrow>
     ((\<not> list_ex video_only (formats_of info) \<or> \<not> list_ex audio_only (formats_of info)) \<longrightarrow>
        watch_separate_streams lib s =
          Inr (launch_mpv_merged lib (currentText (quality_combo s)) 0
                 (console_append ''No separate streams found; fallback merged.'' s)) \<and>
        (\<exists>s'. watch_separate_streams lib s = Inr s' \<and>
           ''No separate streams found; fallback merged.'' \<in> set (console_output s') \<and>
           video_process s' = video_process s \<and> audio_process s' = audio_process s \<and>
           sync_timer s' = sync_timer s \<and>
           (truthy_str (current_video_url s) \<longrightarrow>
              map_option program (player_process s') = Some ''mpv'' \<and>
              (''--ytdl-format='' @ mpv_format_of (currentText (quality_combo s))) \<in>
                 set (player_arguments s')))) \<and>
     (list_ex video_only (formats_of info) \<and> list_ex audio_only (formats_of info) \<longrightarrow>
        (\<exists>s' vu au. watch_separate_streams lib s = Inr s' \<and>
           first_url video_only (formats_of info) = Some vu \<and>
           first_url audio_only (formats_of info) = Some au \<and>
           video_process s' =
             Some \<lparr>program = ''mpv'',
                   arguments =
                     (if is_detached s then [] else [''--wid='' @ py_str_int (win_id s)]) @
                     [''--no-audio'', ''--osc'', ''--cache=yes'', ''--demuxer-thread=yes'',
                      ''--input-ipc-server=/tmp/mpv_video'', vu]\<rparr> \<and>
           audio_process s' =
             Some \<lparr>program = ''mpv'',
                   arguments =
                     [''--no-video'', ''--osc'', ''--cache=yes'', ''--demuxer-thread=yes'',
                      ''--input-ipc-server=/tmp/mpv_audio'', au]\<rparr> \<and>
           sync_timer s' = Some 1000 \<and>
           player_process s' = player_process s))"
proof (intro impI)
  assume "current_info s = Some info \<and> \<not> info_falsy (current_info s) \<and>
   (\<forall>f\<in>set (formats_of info). truthy_str (f_url f))"
  then have info: "current_info s = Some info" and nf: "\<not> info_falsy (current_info s)"
    and wf: "\<forall>f\<in>set (formats_of info). truthy_str (f_url f)"
    by blast+
  let ?fs = "formats_of info"
  note fsi = find_streams_initial [OF wf]
  note tv = first_url_truthy [OF wf, of video_only]
  note ta = first_url_truthy [OF wf, of audio_only]
  let ?s1 = "console_append ''No separate streams found; fallback merged.'' s"
  let ?fb = "launch_mpv_merged lib (currentText (quality_combo s)) 0 ?s1"
  have fallback: "watch_separate_streams lib s = Inr ?fb"
    if "\<not> list_ex video_only ?fs \<or> \<not> list_ex audio_only ?fs"
  proof -
    from that have "\<not> truthy_str (first_url video_only ?fs) \<or> \<not> truthy_str (first_url audio_only ?fs)"
      by (simp add: tv ta)
    then show ?thesis
      using nf by (simp add: watch_separate_streams_def info fsi)
  qed
  have notice: "''No separate streams found; fallback merged.'' \<in> set (console_output ?fb)"
    using console_output_launch_mpv_merged [of ?s1 lib "currentText (quality_combo s)" 0]
    by auto
  have launched: "map_option program (player_process ?fb) = Some ''mpv'' \<and>
      (''--ytdl-format='' @ mpv_format_of (currentText (quality_combo s))) \<in> set (player_arguments ?fb)"
    if "truthy_str (current_video_url s)"
  proof -
    from that obtain u where u: "current_video_url ?s1 = Some u" "u \<noteq> []"
      by (auto simp: truthy_str_def split: option.splits)
    show ?thesis
      by (simp add: launch_mpv_merged_arguments [OF u] player_arguments_def)
  qed
  have separate: "\<exists>s' vu au. watch_separate_streams lib s = Inr s' \<and>
           first_url video_only ?fs = Some vu \<and>
           first_url audio_only ?fs = Some au \<and>
           video_process s' =
             Some \<lparr>program = ''mpv'',
                   arguments =
                     (if is_detached s then [] else [''--wid='' @ py_str_int (win_id s)]) @
                     [''--no-audio'', ''--osc'', ''--cache=yes'', ''--demuxer-thread=yes'',
                      ''--input-ipc-server=/tmp/mpv_video'', vu]\<rparr> \<and>
           audio_process s' =
             Some \<lparr>program = ''mpv'',
                   arguments =
                     [''--no-video'', ''--osc'', ''--cache=yes'', ''--demuxer-thread=yes'',
                      ''--input-ipc-server=/tmp/mpv_audio'', au]\<rparr> \<and>
           sync_timer s' = Some 1000 \<and>
           player_process s' = player_process s"
    if "list_ex video_only ?fs \<and> list_ex audio_only ?fs"
  proof -
    from that have "truthy_str (first_url video_only ?fs)" "truthy_str (first_url audio_only ?fs)"
      by (simp_all add: tv ta)
    then obtain vu au where vu: "first_url video_only ?fs = Some vu" "vu \<noteq> []"
      and au: "first_url audio_only ?fs = Some au" "au \<noteq> []"
      by (auto simp: truthy_str_def split: option.splits)
    have "find_streams ?fs None None = Inr (Some vu, Some au)"
      by (simp add: fsi vu au)
    from watch_separate_streams_found [OF nf info this vu(2) au(2), of lib]
    show ?thesis
      using vu(1) au(1) by blast
  qed
  show "((\<not> list_ex video_only (formats_of info) \<or> \<not> list_ex audio_only (formats_of info)) \<longrightarrow>
        watch_separate_streams lib s = Inr ?fb \<and>
        (\<exists>s'. watch_separate_streams lib s = Inr s' \<and>
           ''No separate streams found; fallback merged.'' \<in> set (console_output s') \<and>
           video_process s' = video_process s \<and> audio_process s' = audio_process s \<and>
           sync_timer s' = sync_timer s \<and>
           (truthy_str (current_video_url s) \<longrightarrow>
              map_option program (player_process s') = Some ''mpv'' \<and>
              (''--ytdl-format='' @ mpv_format_of (currentText (quality_combo s))) \<in>
                 set (player_arguments s')))) \<and>
     (list_ex video_only (formats_of info) \<and> list_ex audio_only (formats_of info) \<longrightarrow>
        (\<exists>s' vu au. watch_separate_streams lib s = Inr s' \<and>
           first_url video_only (formats_of info) = Some vu \<and>
           first_url audio_only (formats_of info) = Some au \<and>
           video_process s' =
             Some \<lparr>program = ''mpv'',
                   arguments =
                     (if is_detached s then [] else [''--wid='' @ py_str_int (win_id s)]) @
                     [''--no-audio'', ''--osc'', ''--cache=yes'', ''--demuxer-thread=yes'',
                      ''--input-ipc-server=/tmp/mpv_video'', vu]\<rparr> \<and>
           audio_process s' =
             Some \<lparr>program = ''mpv'',
                   arguments =
                     [''--no-video'', ''--osc'', ''--cache=yes'', ''--demuxer-thread=yes'',
                      ''--input-ipc-server=/tmp/mpv_audio'', au]\<rparr> \<and>
           sync_timer s' = Some 1000 \<and>
           player_process s' = player_process s))"
  proof (intro conjI impI)
    assume c: "\<not> list_ex video_only ?fs \<or> \<not> list_ex audio_only ?fs"
    show "watch_separate_streams lib s = Inr ?fb"
      by (rule fallback [OF c])
    show "\<exists>s'. watch_separate_streams lib s = Inr s' \<and>
           ''No separate streams found; fallback merged.'' \<in> set (console_output s') \<and>
           video_process s' = video_process s \<and> audio_process s' = audio_process s \<and>
           sync_timer s' = sync_timer s \<and>
           (truthy_str (current_video_url s) \<longrightarrow>
              map_option program (player_process s') = Some ''mpv'' \<and>
              (''--ytdl-format='' @ mpv_format_of (currentText (quality_combo s))) \<in>
                 set (player_arguments s'))"
    proof (intro exI conjI impI)
      show "watch_separate_streams lib s = Inr ?fb" by (rule fallback [OF c])
      show "''No separate streams found; fallback merged.'' \<in> set (console_output ?fb)"
        by (rule notice)
      show "video_process ?fb = video_process s" by simp
      show "audio_process ?fb = audio_process s" by simp
      show "sync_timer ?fb = sync_timer s" by simp
    next
      assume "truthy_str (current_video_url s)"
      from launched [OF this]
      show "map_option program (player_process ?fb) = Some ''mpv''"
        and "(''--ytdl-format='' @ mpv_format_of (currentText (quality_combo s))) \<in>
                 set (player_arguments ?fb)"
        by simp_all
    qed
  next
    assume "list_ex video_only ?fs \<and> list_ex audio_only ?fs"
    then show "\<exists>s' vu au. watch_separate_streams lib s = Inr s' \<and>
           first_url video_only (formats_of info) = Some vu \<and>
           first_url audio_only (formats_of info) = Some au \<and>
           video_process s' =
             Some \<lparr>program = ''mpv'',
                   arguments =
                     (if is_detached s then [] else [''--wid='' @ py_str_int (win_id s)]) @
                     [''--no-audio'', ''--osc'', ''--cache=yes'', ''--demuxer-thread=yes'',
                      ''--input-ipc-server=/tmp/mpv_video'', vu]\<rparr> \<and>
           audio_process s' =
             Some \<lparr>program = ''mpv'',
                   arguments =
                     [''--no-video'', ''--osc'', ''--cache=yes'', ''--demuxer-thread=yes'',
                      ''--input-ipc-server=/tmp/mpv_audio'', au]\<rparr> \<and>
           sync_timer s' = Some 1000 \<and>
           player_process s' = player_process s"
      by (rule separate)
  qed
qed


lemma py_str_int_77: "py_str_int 77 = ''77''"
  by code_simp

theorem watch_separate_streams_spec_witness:
  "watch_separate_streams example_lib
      (example_client [fmt_codec ''mp4a'' ''avc1'' ''https://example.org/av'']) =
     Inr (launch_mpv_merged example_lib ''720p'' 0
            (console_append ''No separate streams found; fallback merged.''
               (example_client [fmt_codec ''mp4a'' ''avc1'' ''https://example.org/av'']))) \<and>
   (case watch_separate_streams example_lib
           (example_client [fmt_codec ''none'' ''avc1'' ''https://example.org/v'',
                            fmt_codec ''mp4a'' ''none'' ''https://example.org/a''])
    of Inl e \<Rightarrow> None | Inr s' \<Rightarrow> video_process s') =
     Some \<lparr>program = ''mpv'',
           arguments = [''--wid=77'', ''--no-audio'', ''--osc'', ''--cache=yes'',
                        ''--demuxer-thread=yes'', ''--input-ipc-server=/tmp/mpv_video'',
                        ''https://example.org/v'']\<rparr> \<and>
   (case watch_separate_streams example_lib
           (example_client [fmt_codec ''none'' ''avc1'' ''https://example.org/v'',
                            fmt_codec ''mp4a'' ''none'' ''https://example.org/a''])
    of Inl e \<Rightarrow> None | Inr s' \<Rightarrow> audio_process s') =
     Some \<lparr>program = ''mpv'',
           arguments = [''--no-video'', ''--osc'', ''--cache=yes'',
                        ''--demuxer-thread=yes'', ''--input-ipc-server=/tmp/mpv_audio'',
                        ''https://example.org/a'']\<rparr> \<and>
   (case watch_separate_streams example_lib
           (example_client [fmt_codec ''none'' ''avc1'' ''https://example.org/v'',
                            fmt_codec ''mp4a'' ''none'' ''https://example.org/a''])
    of Inl e \<Rightarrow> None | Inr s' \<Rightarrow> sync_timer s') = Some 1000"
proof -
  let ?A = "[fmt_codec ''mp4a'' ''avc1'' ''https://example.org/av'']"
  let ?B = "[fmt_codec ''none'' ''avc1'' ''https://example.org/v'',
             fmt_codec ''mp4a'' ''none'' ''https://example.org/a'']"
  have hypA: "current_info (example_client ?A) = Some (info_of_formats ?A) \<and>
      \<not> info_falsy (current_info (example_client ?A)) \<and>
      (\<forall>f\<in>set (formats_of (info_of_formats ?A)). truthy_str (f_url f))"
    by (simp add: example_client_def info_falsy_def info_of_formats_def formats_of_def
        fmt_codec_def truthy_str_def)
  have noA: "\<not> list_ex video_only (formats_of (info_of_formats ?A)) \<or>
      \<not> list_ex audio_only (formats_of (info_of_formats ?A))"
    by (simp add: info_of_formats_def formats_of_def fmt_codec_def video_only_def)
  have q: "currentText (quality_combo (example_client ?A)) = ''720p''"
    by (simp add: example_client_def currentText_def)
  have "watch_separate_streams example_lib (example_client ?A) =
     Inr (launch_mpv_merged example_lib (currentText (quality_combo (example_client ?A))) 0
            (console_append ''No separate streams found; fallback merged.'' (example_client ?A)))"
    using watch_separate_streams_spec [of "example_client ?A" "info_of_formats ?A" example_lib]
      hypA noA
    by blast
  then have a: "watch_separate_streams example_lib (example_client ?A) =
     Inr (launch_mpv_merged example_lib ''720p'' 0
            (console_append ''No separate streams found; fallback merged.'' (example_client ?A)))"
    unfolding q .
  have hypB: "current_info (example_client ?B) = Some (info_of_formats ?B) \<and>
      \<not> info_falsy (current_info (example_client ?B)) \<and>
      (\<forall>f\<in>set (formats_of (info_of_formats ?B)). truthy_str (f_url f))"
    by (simp add: example_client_def info_falsy_def info_of_formats_def formats_of_def
        fmt_codec_def truthy_str_def)
  have bothB: "list_ex video_only (formats_of (info_of_formats ?B)) \<and>
      list_ex audio_only (formats_of (info_of_formats ?B))"
    by (simp add: info_of_formats_def formats_of_def fmt_codec_def video_only_def audio_only_def)
  have fu: "first_url video_only (formats_of (info_of_formats ?B)) = Some ''https://example.org/v''"
    "first_url audio_only (formats_of (info_of_formats ?B)) = Some ''https://example.org/a''"
    by (simp_all add: first_url_def info_of_formats_def formats_of_def fmt_codec_def
        video_only_def audio_only_def)
  have st: "is_detached (example_client ?B) = False" "win_id (example_client ?B) = 77"
    by (simp_all add: example_client_def)
  obtain s' vu au where s': "watch_separate_streams example_lib (example_client ?B) = Inr s'"
    and vu: "first_url video_only (formats_of (info_of_formats ?B)) = Some vu"
    and au: "first_url audio_only (formats_of (info_of_formats ?B)) = Some au"
    and vp: "video_process s' =
             Some \<lparr>program = ''mpv'',
                   arguments =
                     (if is_detached (example_client ?B) then []
                      else [''--wid='' @ py_str_int (win_id (example_client ?B))]) @
                     [''--no-audio'', ''--osc'', ''--cache=yes'', ''--demuxer-thread=yes'',
                      ''--input-ipc-server=/tmp/mpv_video'', vu]\<rparr>"
    and ap: "audio_process s' =
             Some \<lparr>program = ''mpv'',
                   arguments =
                     [''--no-video'', ''--osc'', ''--cache=yes'', ''--demuxer-thread=yes'',
                      ''--input-ipc-server=/tmp/mpv_audio'', au]\<rparr>"
    and tm: "sync_timer s' = Some 1000"
    using watch_separate_streams_spec [of "example_client ?B" "info_of_formats ?B" example_lib]
      hypB bothB
    by blast
  from vu au fu have vau: "vu = ''https://example.org/v''" "au = ''https://example.org/a''"
    by simp_all
  have b: "(case watch_separate_streams example_lib (example_client ?B)
            of Inl e \<Rightarrow> None | Inr s' \<Rightarrow> video_process s') =
     Some \<lparr>program = ''mpv'',
           arguments = [''--wid=77'', ''--no-audio'', ''--osc'', ''--cache=yes'',
                        ''--demuxer-thread=yes'', ''--input-ipc-server=/tmp/mpv_video'',
                        ''https://example.org/v'']\<rparr>"
    by (simp add: s' vp vau st py_str_int_77)
  have c: "(case watch_separate_streams example_lib (example_client ?B)
            of Inl e \<Rightarrow> None | Inr s' \<Rightarrow> audio_process s') =
     Some \<lparr>program = ''mpv'',
           arguments = [''--no-video'', ''--osc'', ''--cache=yes'',
                        ''--demuxer-thread=yes'', ''--input-ipc-server=/tmp/mpv_audio'',
                        ''https://example.org/a'']\<rparr>"
    by (simp add: s' ap vau)
  have d: "(case watch_separate_streams example_lib (example_client ?B)
            of Inl e \<Rightarrow> None | Inr s' \<Rightarrow> sync_timer s') = Some 1000"
    by (simp add: s' tm)
  from a b c d show ?thesis by blast
qed

section \<open>Properties of the caches\<close>

lemma record_call_fields [simp]:
  "extraction_cache (record_call ev w) = extraction_cache w"
  "channel_videos_cache (record_call ev w) = channel_videos_cache w"
  "files (record_call ev w) = files w"
  "calls (record_call ev w) = calls w @ [ev]"
  by (simp_all add: record_call_def)

lemma observers_record_call [simp]:
  "backend_runs (record_call (ExtractInfo u c) w) = Suc (backend_runs w)"
  "backend_runs (record_call (ExtractFlat u) w) = Suc (backend_runs w)"
  "backend_runs (record_call (PathExists n) w) = backend_runs w"
  "backend_runs (record_call (GetCookiesHeadless u) w) = backend_runs w"
  "backend_runs (record_call (WriteFile n) w) = backend_runs w"
  "acquisitions (record_call (ExtractInfo u c) w) = acquisitions w"
  "acquisitions (record_call (ExtractFlat u) w) = acquisitions w"
  "acquisitions (record_call (PathExists n) w) = acquisitions w"
  "acquisitions (record_call (GetCookiesHeadless u) w) = Suc (acquisitions w)"
  "acquisitions (record_call (WriteFile n) w) = acquisitions w"
  "file_checks (record_call (ExtractInfo u c) w) = file_checks w"
  "file_checks (record_call (ExtractFlat u) w) = file_checks w"
  "file_checks (record_call (PathExists n) w) = Suc (file_checks w)"
  "file_checks (record_call (GetCookiesHeadless u) w) = file_checks w"
  "file_checks (record_call (WriteFile n) w) = file_checks w"
  by (simp_all add: backend_runs_def acquisitions_def file_checks_def record_call_def)

lemma observers_cache_update [simp]:
  "backend_runs (w\<lparr>extraction_cache := c\<rparr>) = backend_runs w"
  "acquisitions (w\<lparr>extraction_cache := c\<rparr>) = acquisitions w"
  "file_checks (w\<lparr>extraction_cache := c\<rparr>) = file_checks w"
  "backend_runs (w\<lparr>channel_videos_cache := d\<rparr>) = backend_runs w"
  "backend_runs (w\<lparr>files := f\<rparr>) = backend_runs w"
  "acquisitions (w\<lparr>files := f\<rparr>) = acquisitions w"
  "file_checks (w\<lparr>files := f\<rparr>) = file_checks w"
  by (simp_all add: backend_runs_def acquisitions_def file_checks_def)

lemma extract_formats_hit:
  "extraction_cache w (url, cf) = Some v \<Longrightarrow> extract_formats bk url cf w = (Inr v, w)"
  by (simp add: extract_formats_def)

lemma extract_formats_miss_ok:
  assumes "extraction_cache w (url, cf) = None" "extract_formats bk url cf w = (Inr v, w1)"
  shows "extraction_cache w1 (url, cf) = Some v" "backend_runs w1 = backend_runs w + 1"
    "files w1 = files w" "acquisitions w1 = acquisitions w" "file_checks w1 = file_checks w"
  using assms by (auto simp: extract_formats_def Let_def split: sum.splits)

lemma extract_formats_fail:
  assumes "extract_formats bk url cf w = (Inl e, w1)"
  shows "extraction_cache w (url, cf) = None"
    "w1 = record_call (ExtractInfo url (if truthy_str cf then cf else None)) w"
    "extract_info bk (files w) url (if truthy_str cf then cf else None) = Inl e"
  using assms by (auto simp: extract_formats_def Let_def split: sum.splits option.splits)

lemma extract_formats_fail_again:
  assumes "extract_formats bk url cf w = (Inl e, w1)"
  shows "extract_formats bk url cf w1 =
           (Inl e, record_call (ExtractInfo url (if truthy_str cf then cf else None)) w1)"
  using extract_formats_fail [OF assms]
  by (simp add: extract_formats_def Let_def)

lemma get_channel_videos_stores:
  assumes "chan \<noteq> []" "get_channel_videos bk chan n w = (vs, w1)"
  shows "channel_videos_cache w1 (chan, n) = Some vs"
    "backend_runs w1 \<le> backend_runs w + 1"
  using assms by (auto simp: get_channel_videos_def Let_def split: option.splits)

lemma get_channel_videos_hit:
  "chan \<noteq> [] \<Longrightarrow> channel_videos_cache w (chan, n) = Some vs \<Longrightarrow>
     get_channel_videos bk chan n w = (vs, w)"
  by (simp add: get_channel_videos_def)

lemma get_channel_videos_failure:
  assumes "chan \<noteq> []" "channel_videos_cache w (chan, n) = None" "extract_flat bk chan = Inl e"
  shows "get_channel_videos bk chan n w =
     ([], (record_call (ExtractFlat chan) w)
            \<lparr>channel_videos_cache := (channel_videos_cache w)((chan, n) \<mapsto> [])\<rparr>)"
  using assms by (simp add: get_channel_videos_def Let_def)

text \<open>
  The cache of \<open>extract_formats\<close> memoizes successes only. A call whose key is in the
  cache returns the stored value and leaves the world as it is; after a call that missed
  and succeeded, the value is stored, the backend has run once, and a second call with
  the same key returns the same value without another run; after a call that failed, the
  cache is unchanged and a second call with the same key runs the backend again.
\<close>

lemma extract_formats_memoizes:
  "(extraction_cache w (url, cf) = Some v \<longrightarrow> extract_formats bk url cf w = (Inr v, w)) \<and>
   (extraction_cache w (url, cf) = None \<and> extract_formats bk url cf w = (Inr v, w1) \<longrightarrow>
      extraction_cache w1 (url, cf) = Some v \<and> backend_runs w1 = backend_runs w + 1 \<and>
      extract_formats bk url cf w1 = (Inr v, w1)) \<and>
   (extract_formats bk url cf w = (Inl e, w1) \<longrightarrow>
      extraction_cache w1 = extraction_cache w \<and> extraction_cache w1 (url, cf) = None \<and>
      backend_runs w1 = backend_runs w + 1 \<and>
      fst (extract_formats bk url cf w1) = Inl e \<and>
      backend_runs (snd (extract_formats bk url cf w1)) = backend_runs w + 2)"
proof (intro conjI impI)
  assume "extraction_cache w (url, cf) = Some v"
  then show "extract_formats bk url cf w = (Inr v, w)"
    by (rule extract_formats_hit)
next
  assume "extraction_cache w (url, cf) = None \<and> extract_formats bk url cf w = (Inr v, w1)"
  then have m: "extraction_cache w (url, cf) = None" "extract_formats bk url cf w = (Inr v, w1)"
    by blast+
  show c: "extraction_cache w1 (url, cf) = Some v"
    by (rule extract_formats_miss_ok(1) [OF m])
  show "backend_runs w1 = backend_runs w + 1"
    by (rule extract_formats_miss_ok(2) [OF m])
  show "extract_formats bk url cf w1 = (Inr v, w1)"
    by (rule extract_formats_hit [OF c])
next
  assume f: "extract_formats bk url cf w = (Inl e, w1)"
  note w1 = extract_formats_fail(2) [OF f]
  show "extraction_cache w1 = extraction_cache w"
    by (simp add: w1)
  show "extraction_cache w1 (url, cf) = None"
    using extract_formats_fail(1) [OF f] by (simp add: w1)
  show "backend_runs w1 = backend_runs w + 1"
    by (simp add: w1)
  show "fst (extract_formats bk url cf w1) = Inl e"
    by (simp add: extract_formats_fail_again [OF f])
  show "backend_runs (snd (extract_formats bk url cf w1)) = backend_runs w + 2"
    by (simp add: extract_formats_fail_again [OF f]) (simp add: w1)
qed

text \<open>
  The cache of \<open>get_channel_videos\<close> stores whatever list a call returns: for a
  non-empty address the list is stored under the key and a second call with the same
  key returns it without another backend run; after a failed listing that list is empty.
\<close>

lemma get_channel_videos_memoizes:
  "(chan \<noteq> [] \<and> get_channel_videos bk chan n w = (vs, w2) \<longrightarrow>
      channel_videos_cache w2 (chan, n) = Some vs \<and> backend_runs w2 \<le> backend_runs w + 1 \<and>
      get_channel_videos bk2 chan n w2 = (vs, w2)) \<and>
   (chan \<noteq> [] \<and> channel_videos_cache w (chan, n) = None \<and> extract_flat bk chan = Inl e' \<longrightarrow>
      fst (get_channel_videos bk chan n w) = [] \<and>
      channel_videos_cache (snd (get_channel_videos bk chan n w)) (chan, n) = Some [])"
proof (intro conjI impI)
  assume "chan \<noteq> [] \<and> get_channel_videos bk chan n w = (vs, w2)"
  then have g: "chan \<noteq> []" "get_channel_videos bk chan n w = (vs, w2)"
    by blast+
  show c: "channel_videos_cache w2 (chan, n) = Some vs"
    by (rule get_channel_videos_stores(1) [OF g])
  show "backend_runs w2 \<le> backend_runs w + 1"
    by (rule get_channel_videos_stores(2) [OF g])
  show "get_channel_videos bk2 chan n w2 = (vs, w2)"
    by (rule get_channel_videos_hit [OF g(1) c])
next
  assume "chan \<noteq> [] \<and> channel_videos_cache w (chan, n) = None \<and> extract_flat bk chan = Inl e'"
  then have h: "chan \<noteq> []" "channel_videos_cache w (chan, n) = None" "extract_flat bk chan = Inl e'"
    by blast+
  show "fst (get_channel_videos bk chan n w) = []"
    by (simp add: get_channel_videos_failure [OF h])
  show "channel_videos_cache (snd (get_channel_videos bk chan n w)) (chan, n) = Some []"
    by (simp add: get_channel_videos_failure [OF h])
qed

text \<open>
  Claim C3: only successful results are memoized, and a failed producer is invoked again
  by the next call with the same key. The code of \<open>get_channel_videos\<close> does not do
  this. Evaluated on the channel \<open>chan\<close> with 20 results in the empty world: when the
  backend fails, the call returns the empty list and stores it under the key; the next
  call with the same key, now with a backend that would list two videos, returns the
  stored empty list, runs no backend (one run after two calls) and changes nothing. The
  same two calls of \<open>extract_formats\<close> behave as the claim says: nothing is stored
  after the failure and the second call runs the backend and succeeds.
\<close>

theorem get_channel_videos_failure_cached:
  "fst (get_channel_videos backend_failing ''chan'' 20 world_empty) = [] \<and>
   channel_videos_cache
     (snd (get_channel_videos backend_failing ''chan'' 20 world_empty)) (''chan'', 20) = Some [] \<and>
   get_channel_videos backend_open ''chan'' 20
     (snd (get_channel_videos backend_failing ''chan'' 20 world_empty)) =
     ([], snd (get_channel_videos backend_failing ''chan'' 20 world_empty)) \<and>
   backend_runs
     (snd (get_channel_videos backend_open ''chan'' 20
        (snd (get_channel_videos backend_failing ''chan'' 20 world_empty)))) = 1 \<and>
   fst (get_channel_videos backend_open ''chan'' 20 world_empty) =
     [\<lparr>v_title = ''First'', v_videoId = ''v1'', v_thumbnail = ''large''\<rparr>,
      \<lparr>v_title = ''Unknown'', v_videoId = ''v2'', v_thumbnail = []\<rparr>] \<and>
   extraction_cache
     (snd (extract_formats backend_failing ''u'' None world_empty)) (''u'', None) = None \<and>
   fst (extract_formats backend_open ''u'' None
     (snd (extract_formats backend_failing ''u'' None world_empty))) =
     Inr (info_of_formats [fmt_hf 720 30]) \<and>
   backend_runs
     (snd (extract_formats backend_open ''u'' None
        (snd (extract_formats backend_failing ''u'' None world_empty)))) = 2"
proof -
  let ?w1 = "(record_call (ExtractFlat ''chan'') world_empty)
            \<lparr>channel_videos_cache := (channel_videos_cache world_empty)((''chan'', 20) \<mapsto> [])\<rparr>"
  have miss: "channel_videos_cache world_empty (''chan'', 20) = None"
    "extraction_cache world_empty (''u'', None) = None"
    "backend_runs world_empty = 0"
    by (simp_all add: world_empty_def backend_runs_def)
  have ne: "''chan'' \<noteq> []"
    by simp
  have fl: "extract_flat backend_failing ''chan'' = Inl (DownloadError ''Unable to download'')"
    by (simp add: backend_failing_def)
  have first: "get_channel_videos backend_failing ''chan'' 20 world_empty = ([], ?w1)"
    by (rule get_channel_videos_failure [OF ne miss(1) fl])
  have stored: "channel_videos_cache ?w1 (''chan'', 20) = Some []"
    by simp
  have second: "get_channel_videos backend_open ''chan'' 20 ?w1 = ([], ?w1)"
    by (rule get_channel_videos_hit [OF ne stored])
  have runs: "backend_runs ?w1 = 1"
    by (simp add: miss(3))
  have listing: "fst (get_channel_videos backend_open ''chan'' 20 world_empty) =
     [\<lparr>v_title = ''First'', v_videoId = ''v1'', v_thumbnail = ''large''\<rparr>,
      \<lparr>v_title = ''Unknown'', v_videoId = ''v2'', v_thumbnail = []\<rparr>]"
    by (simp add: get_channel_videos_def Let_def miss(1) backend_open_def entry_thumb_def)
  let ?x1 = "record_call (ExtractInfo ''u'' None) world_empty"
  have xf: "extract_formats backend_failing ''u'' None world_empty =
      (Inl (DownloadError ''Sign in to confirm''), ?x1)"
    by (simp add: extract_formats_def Let_def miss(2) backend_failing_def truthy_str_def)
  have xc: "extraction_cache ?x1 (''u'', None) = None"
    by (simp add: miss(2))
  have xs: "fst (extract_formats backend_open ''u'' None ?x1) = Inr (info_of_formats [fmt_hf 720 30])"
    "backend_runs (snd (extract_formats backend_open ''u'' None ?x1)) = 2"
    by (simp_all add: extract_formats_def Let_def miss backend_open_def truthy_str_def)
  show ?thesis
    by (simp only: first xf fst_conv snd_conv stored second runs listing xc xs simp_thms)
qed

section \<open>Properties of the extraction with fallback\<close>

lemma extract_formats_frame:
  "files (snd (extract_formats bk url cf w)) = files w"
  "acquisitions (snd (extract_formats bk url cf w)) = acquisitions w"
  "file_checks (snd (extract_formats bk url cf w)) = file_checks w"
  "backend_runs (snd (extract_formats bk url cf w)) \<le> backend_runs w + 1"
  by (simp_all add: extract_formats_def Let_def split: option.splits sum.splits)

lemma extract_formats_frame_eq:
  assumes "extract_formats bk url cf w = (r, w1)"
  shows "files w1 = files w" "acquisitions w1 = acquisitions w"
    "file_checks w1 = file_checks w" "backend_runs w1 \<le> backend_runs w + 1"
  using extract_formats_frame [of bk url cf w] by (simp_all add: assms)

lemma save_cookies_to_file_fields [simp]:
  "files (snd (save_cookies_to_file lib cookies name w)) = (files w)(name \<mapsto> cookie_file_text lib cookies)"
  "acquisitions (snd (save_cookies_to_file lib cookies name w)) = acquisitions w"
  "backend_runs (snd (save_cookies_to_file lib cookies name w)) = backend_runs w"
  "file_checks (snd (save_cookies_to_file lib cookies name w)) = file_checks w"
  "extraction_cache (snd (save_cookies_to_file lib cookies name w)) = extraction_cache w"
  by (simp_all add: save_cookies_to_file_def)

lemma extract_with_fallback_anonymous:
  assumes "extract_formats bk url None w = (Inr info, w1)"
  shows "extract_with_fallback lib bk url w = (Inr (''no_cookies'', info), w1)"
  by (simp add: extract_with_fallback_def assms)

lemma extract_with_fallback_file_exists:
  assumes "extract_formats bk url None w = (Inl e, w1)" "files w ''cookies.txt'' = Some existing"
  shows "extract_with_fallback lib bk url w =
     map_prod (map_sum id (Pair ''cookies'')) id
       (extract_formats bk url (Some ''cookies.txt'') (record_call (PathExists ''cookies.txt'') w1))"
  using assms extract_formats_frame_eq(1) [OF assms(1)]
  by (simp add: extract_with_fallback_def Let_def split: prod.splits sum.splits)

lemma extract_with_fallback_acquired:
  assumes "extract_formats bk url None w = (Inl e, w1)" "files w ''cookies.txt'' = None"
    and "get_cookies_headless bk url = Inr cookies"
  shows "extract_with_fallback lib bk url w =
     map_prod (map_sum id (Pair ''cookies'')) id
       (extract_formats bk url (Some ''cookies.txt'')
          (snd (save_cookies_to_file lib cookies ''cookies.txt''
             (record_call (GetCookiesHeadless url) (record_call (PathExists ''cookies.txt'') w1)))))"
  using assms extract_formats_frame_eq(1) [OF assms(1)]
  by (simp add: extract_with_fallback_def Let_def split: prod.splits sum.splits)

lemma extract_with_fallback_acquisition_failed:
  assumes "extract_formats bk url None w = (Inl e, w1)" "files w ''cookies.txt'' = None"
    and "get_cookies_headless bk url = Inl e1"
  shows "extract_with_fallback lib bk url w =
     (Inl e1, record_call (GetCookiesHeadless url) (record_call (PathExists ''cookies.txt'') w1))"
  using assms extract_formats_frame_eq(1) [OF assms(1)]
  by (simp add: extract_with_fallback_def Let_def)

lemma fst_tagged:
  "fst (map_prod (map_sum id (Pair ''cookies'')) id p) =
     (case fst p of Inl e \<Rightarrow> Inl e | Inr i \<Rightarrow> Inr (''cookies'', i))"
  by (cases p) (simp split: sum.splits)

text \<open>
  Claim C2. \<open>extract_with_fallback\<close> first runs the anonymous extraction. If that
  succeeds, its result is returned with the mode \<open>no_cookies\<close>, and neither the file
  check nor the acquisition takes place. If it fails, the file \<open>cookies.txt\<close> is
  checked once: when it exists, no acquisition is made and the file stays as it is; when
  it does not exist, the acquisition is made exactly once and its cookies are written to
  the file. Then the extraction with the cookie file is run exactly once and its
  result, success with the mode \<open>cookies\<close> or the exception, is the result of the
  call. When the acquisition fails, its exception is the result and no further
  extraction is run. The backend runs at most twice in all.
\<close>

theorem extract_with_fallback_protocol:
  "(extract_formats bk url None w = (Inr info, w1) \<longrightarrow>
      extract_with_fallback lib bk url w = (Inr (''no_cookies'', info), w1) \<and>
      file_checks w1 = file_checks w \<and> acquisitions w1 = acquisitions w \<and>
      files w1 = files w \<and> backend_runs w1 \<le> backend_runs w + 1) \<and>
   (extract_formats bk url None w = (Inl e, w1) \<and> files w ''cookies.txt'' = Some existing \<longrightarrow>
      extract_with_fallback lib bk url w =
        map_prod (map_sum id (Pair ''cookies'')) id
          (extract_formats bk url (Some ''cookies.txt'')
             (record_call (PathExists ''cookies.txt'') w1)) \<and>
      file_checks (snd (extract_with_fallback lib bk url w)) = file_checks w + 1 \<and>
      acquisitions (snd (extract_with_fallback lib bk url w)) = acquisitions w \<and>
      files (snd (extract_with_fallback lib bk url w)) = files w \<and>
      backend_runs (snd (extract_with_fallback lib bk url w)) \<le> backend_runs w + 2) \<and>
   (extract_formats bk url None w = (Inl e, w1) \<and> files w ''cookies.txt'' = None \<and>
    get_cookies_headless bk url = Inr cookies \<longrightarrow>
      extract_with_fallback lib bk url w =
        map_prod (map_sum id (Pair ''cookies'')) id
          (extract_formats bk url (Some ''cookies.txt'')
             (snd (save_cookies_to_file lib cookies ''cookies.txt''
                (record_call (GetCookiesHeadless url)
                   (record_call (PathExists ''cookies.txt'') w1))))) \<and>
      file_checks (snd (extract_with_fallback lib bk url w)) = file_checks w + 1 \<and>
      acquisitions (snd (extract_with_fallback lib bk url w)) = acquisitions w + 1 \<and>
      files (snd (extract_with_fallback lib bk url w)) =
        (files w)(''cookies.txt'' \<mapsto> cookie_file_text lib cookies) \<and>
      backend_runs (snd (extract_with_fallback lib bk url w)) \<le> backend_runs w + 2) \<and>
   (extract_formats bk url None w = (Inl e, w1) \<and> files w ''cookies.txt'' = None \<and>
    get_cookies_headless bk url = Inl e1 \<longrightarrow>
      extract_with_fallback lib bk url w =
        (Inl e1, record_call (GetCookiesHeadless url)
                   (record_call (PathExists ''cookies.txt'') w1)) \<and>
      acquisitions (snd (extract_with_fallback lib bk url w)) = acquisitions w + 1 \<and>
      files (snd (extract_with_fallback lib bk url w)) = files w \<and>
      backend_runs (snd (extract_with_fallback lib bk url w)) = backend_runs w + 1)"
proof (intro conjI impI)
  assume a: "extract_formats bk url None w = (Inr info, w1)"
  show "extract_with_fallback lib bk url w = (Inr (''no_cookies'', info), w1)"
    by (rule extract_with_fallback_anonymous [OF a])
  show "file_checks w1 = file_checks w" "acquisitions w1 = acquisitions w"
    "files w1 = files w" "backend_runs w1 \<le> backend_runs w + 1"
    by (rule extract_formats_frame_eq [OF a])+
next
  assume "extract_formats bk url None w = (Inl e, w1) \<and> files w ''cookies.txt'' = Some existing"
  then have a: "extract_formats bk url None w = (Inl e, w1)"
    and f: "files w ''cookies.txt'' = Some existing"
    by blast+
  note fr = extract_formats_frame_eq [OF a]
  note w1 = extract_formats_fail(2) [OF a]
  let ?w2 = "record_call (PathExists ''cookies.txt'') w1"
  note fr2 = extract_formats_frame [of bk url "Some ''cookies.txt''" ?w2]
  show eq: "extract_with_fallback lib bk url w =
        map_prod (map_sum id (Pair ''cookies'')) id
          (extract_formats bk url (Some ''cookies.txt'') ?w2)"
    by (rule extract_with_fallback_file_exists [OF a f])
  show "file_checks (snd (extract_with_fallback lib bk url w)) = file_checks w + 1"
    by (simp add: eq fr2 fr)
  show "acquisitions (snd (extract_with_fallback lib bk url w)) = acquisitions w"
    by (simp add: eq fr2 fr)
  show "files (snd (extract_with_fallback lib bk url w)) = files w"
    by (simp add: eq fr2 fr)
  show "backend_runs (snd (extract_with_fallback lib bk url w)) \<le> backend_runs w + 2"
    using fr2(4) fr(4) by (simp add: eq)
next
  assume "extract_formats bk url None w = (Inl e, w1) \<and> files w ''cookies.txt'' = None \<and>
    get_cookies_headless bk url = Inr cookies"
  then have a: "extract_formats bk url None w = (Inl e, w1)"
    and f: "files w ''cookies.txt'' = None"
    and g: "get_cookies_headless bk url = Inr cookies"
    by blast+
  note fr = extract_formats_frame_eq [OF a]
  let ?w4 = "snd (save_cookies_to_file lib cookies ''cookies.txt''
                (record_call (GetCookiesHeadless url)
                   (record_call (PathExists ''cookies.txt'') w1)))"
  note fr2 = extract_formats_frame [of bk url "Some ''cookies.txt''" ?w4]
  show eq: "extract_with_fallback lib bk url w =
        map_prod (map_sum id (Pair ''cookies'')) id
          (extract_formats bk url (Some ''cookies.txt'') ?w4)"
    by (rule extract_with_fallback_acquired [OF a f g])
  show "file_checks (snd (extract_with_fallback lib bk url w)) = file_checks w + 1"
    by (simp add: eq fr2 fr)
  show "acquisitions (snd (extract_with_fallback lib bk url w)) = acquisitions w + 1"
    by (simp add: eq fr2 fr)
  show "files (snd (extract_with_fallback lib bk url w)) =
        (files w)(''cookies.txt'' \<mapsto> cookie_file_text lib cookies)"
    by (simp add: eq fr2 fr)
  show "backend_runs (snd (extract_with_fallback lib bk url w)) \<le> backend_runs w + 2"
    using fr2(4) fr(4) by (simp add: eq)
next
  assume "extract_formats bk url None w = (Inl e, w1) \<and> files w ''cookies.txt'' = None \<and>
    get_cookies_headless bk url = Inl e1"
  then have a: "extract_formats bk url None w = (Inl e, w1)"
    and f: "files w ''cookies.txt'' = None"
    and g: "get_cookies_headless bk url = Inl e1"
    by blast+
  note fr = extract_formats_frame_eq [OF a]
  note w1 = extract_formats_fail(2) [OF a]
  show eq: "extract_with_fallback lib bk url w =
        (Inl e1, record_call (GetCookiesHeadless url)
                   (record_call (PathExists ''cookies.txt'') w1))"
    by (rule extract_with_fallback_acquisition_failed [OF a f g])
  show "acquisitions (snd (extract_with_fallback lib bk url w)) = acquisitions w + 1"
    by (simp add: eq fr)
  show "files (snd (extract_with_fallback lib bk url w)) = files w"
    by (simp add: eq fr)
  show "backend_runs (snd (extract_with_fallback lib bk url w)) = backend_runs w + 1"
    by (simp add: eq) (simp add: w1)
qed


theorem extract_with_fallback_protocol_witness:
  "fst (extract_with_fallback example_lib backend_open ''u'' world_empty) =
     Inr (''no_cookies'', info_of_formats [fmt_hf 720 30]) \<and>
   file_checks (snd (extract_with_fallback example_lib backend_open ''u'' world_empty)) = 0 \<and>
   acquisitions (snd (extract_with_fallback example_lib backend_cookies_only ''u'' world_with_cookies)) = 0 \<and>
   fst (extract_with_fallback example_lib backend_cookies_only ''u'' world_with_cookies) =
     Inr (''cookies'', info_of_formats [fmt_hf 720 30]) \<and>
   acquisitions (snd (extract_with_fallback example_lib backend_cookies_only ''u'' world_empty)) = 1 \<and>
   files (snd (extract_with_fallback example_lib backend_cookies_only ''u'' world_empty)) ''cookies.txt'' =
     Some (cookie_file_text example_lib [example_cookie]) \<and>
   fst (extract_with_fallback example_lib backend_cookies_only ''u'' world_empty) =
     Inr (''cookies'', info_of_formats [fmt_hf 720 30]) \<and>
   fst (extract_with_fallback example_lib backend_failing ''u'' world_empty) =
     Inl (BrowserError ''Browser closed'') \<and>
   backend_runs (snd (extract_with_fallback example_lib backend_failing ''u'' world_empty)) = 1"
proof -
  have z: "backend_runs world_empty = 0" "acquisitions world_empty = 0"
    "file_checks world_empty = 0" "files world_empty ''cookies.txt'' = None"
    "extraction_cache world_empty = (\<lambda>k. None)"
    by (simp_all add: backend_runs_def acquisitions_def file_checks_def world_empty_def)
  have zc: "acquisitions world_with_cookies = 0"
    "files world_with_cookies ''cookies.txt'' = Some (cookie_file_text example_lib [example_cookie])"
    "extraction_cache world_with_cookies = (\<lambda>k. None)"
    by (simp_all add: acquisitions_def world_with_cookies_def world_empty_def)
  \<comment> \<open>the anonymous attempt succeeds\<close>
  obtain w1 where o: "extract_formats backend_open ''u'' None world_empty =
      (Inr (info_of_formats [fmt_hf 720 30]), w1)"
    by (simp add: extract_formats_def Let_def z backend_open_def)
  have "extract_with_fallback example_lib backend_open ''u'' world_empty =
      (Inr (''no_cookies'', info_of_formats [fmt_hf 720 30]), w1) \<and>
      file_checks w1 = file_checks world_empty"
    using extract_with_fallback_protocol [where lib = example_lib and bk = backend_open and url = "''u''"
        and w = world_empty and info = "info_of_formats [fmt_hf 720 30]" and ?w1.0 = w1] o
    by blast
  then have aeq: "extract_with_fallback example_lib backend_open ''u'' world_empty =
      (Inr (''no_cookies'', info_of_formats [fmt_hf 720 30]), w1)"
    and beq: "file_checks w1 = file_checks world_empty"
    by blast+
  have a: "fst (extract_with_fallback example_lib backend_open ''u'' world_empty) =
     Inr (''no_cookies'', info_of_formats [fmt_hf 720 30])"
    by (simp add: aeq)
  have b: "file_checks (snd (extract_with_fallback example_lib backend_open ''u'' world_empty)) = 0"
    by (simp add: aeq beq z)
  \<comment> \<open>the cookie file exists\<close>
  let ?e = "DownloadError ''Sign in to confirm''"
  let ?w1 = "record_call (ExtractInfo ''u'' None) world_with_cookies"
  have c1: "extract_formats backend_cookies_only ''u'' None world_with_cookies = (Inl ?e, ?w1)"
    by (simp add: extract_formats_def Let_def zc backend_cookies_only_def truthy_str_def)
  have c2: "fst (extract_formats backend_cookies_only ''u'' (Some ''cookies.txt'')
      (record_call (PathExists ''cookies.txt'') ?w1)) = Inr (info_of_formats [fmt_hf 720 30])"
    by (simp add: extract_formats_def Let_def zc backend_cookies_only_def truthy_str_def)
  have "extract_with_fallback example_lib backend_cookies_only ''u'' world_with_cookies =
        map_prod (map_sum id (Pair ''cookies'')) id
          (extract_formats backend_cookies_only ''u'' (Some ''cookies.txt'')
             (record_call (PathExists ''cookies.txt'') ?w1)) \<and>
      acquisitions (snd (extract_with_fallback example_lib backend_cookies_only ''u'' world_with_cookies)) =
        acquisitions world_with_cookies"
    using extract_with_fallback_protocol [where lib = example_lib and bk = backend_cookies_only and url = "''u''"
        and w = world_with_cookies and e = "?e" and ?w1.0 = "?w1"
        and existing = "cookie_file_text example_lib [example_cookie]"] c1 zc(2)
    by blast
  then have ceq: "extract_with_fallback example_lib backend_cookies_only ''u'' world_with_cookies =
        map_prod (map_sum id (Pair ''cookies'')) id
          (extract_formats backend_cookies_only ''u'' (Some ''cookies.txt'')
             (record_call (PathExists ''cookies.txt'') ?w1))"
    and cacq: "acquisitions (snd (extract_with_fallback example_lib backend_cookies_only ''u'' world_with_cookies)) =
        acquisitions world_with_cookies"
    by blast+
  have c: "acquisitions (snd (extract_with_fallback example_lib backend_cookies_only ''u'' world_with_cookies)) = 0"
    using cacq by (simp add: zc)
  have d: "fst (extract_with_fallback example_lib backend_cookies_only ''u'' world_with_cookies) =
     Inr (''cookies'', info_of_formats [fmt_hf 720 30])"
    by (simp add: ceq c2)
  \<comment> \<open>no cookie file: one acquisition\<close>
  let ?v1 = "record_call (ExtractInfo ''u'' None) world_empty"
  have e1: "extract_formats backend_cookies_only ''u'' None world_empty = (Inl ?e, ?v1)"
    by (simp add: extract_formats_def Let_def z backend_cookies_only_def truthy_str_def)
  have g1: "get_cookies_headless backend_cookies_only ''u'' = Inr [example_cookie]"
    by (simp add: backend_cookies_only_def)
  have e2: "fst (extract_formats backend_cookies_only ''u'' (Some ''cookies.txt'')
      (snd (save_cookies_to_file example_lib [example_cookie] ''cookies.txt''
         (record_call (GetCookiesHeadless ''u'')
            (record_call (PathExists ''cookies.txt'') ?v1))))) =
      Inr (info_of_formats [fmt_hf 720 30])"
    by (simp add: extract_formats_def Let_def z backend_cookies_only_def truthy_str_def)
  have "extract_with_fallback example_lib backend_cookies_only ''u'' world_empty =
        map_prod (map_sum id (Pair ''cookies'')) id
          (extract_formats backend_cookies_only ''u'' (Some ''cookies.txt'')
             (snd (save_cookies_to_file example_lib [example_cookie] ''cookies.txt''
                (record_call (GetCookiesHeadless ''u'')
                   (record_call (PathExists ''cookies.txt'') ?v1))))) \<and>
      acquisitions (snd (extract_with_fallback example_lib backend_cookies_only ''u'' world_empty)) =
        acquisitions world_empty + 1 \<and>
      files (snd (extract_with_fallback example_lib backend_cookies_only ''u'' world_empty)) =
        (files world_empty)(''cookies.txt'' \<mapsto> cookie_file_text example_lib [example_cookie])"
    using extract_with_fallback_protocol [where lib = example_lib and bk = backend_cookies_only and url = "''u''"
        and w = world_empty and e = "?e" and ?w1.0 = "?v1" and cookies = "[example_cookie]"]
      e1 z(4) g1
    by blast
  then have feq: "extract_with_fallback example_lib backend_cookies_only ''u'' world_empty =
        map_prod (map_sum id (Pair ''cookies'')) id
          (extract_formats backend_cookies_only ''u'' (Some ''cookies.txt'')
             (snd (save_cookies_to_file example_lib [example_cookie] ''cookies.txt''
                (record_call (GetCookiesHeadless ''u'')
                   (record_call (PathExists ''cookies.txt'') ?v1)))))"
    and facq: "acquisitions (snd (extract_with_fallback example_lib backend_cookies_only ''u'' world_empty)) =
        acquisitions world_empty + 1"
    and ffil: "files (snd (extract_with_fallback example_lib backend_cookies_only ''u'' world_empty)) =
        (files world_empty)(''cookies.txt'' \<mapsto> cookie_file_text example_lib [example_cookie])"
    by blast+
  have f: "acquisitions (snd (extract_with_fallback example_lib backend_cookies_only ''u'' world_empty)) = 1"
    using facq by (simp add: z)
  have g: "files (snd (extract_with_fallback example_lib backend_cookies_only ''u'' world_empty)) ''cookies.txt'' =
     Some (cookie_file_text example_lib [example_cookie])"
    by (simp add: ffil)
  have h: "fst (extract_with_fallback example_lib backend_cookies_only ''u'' world_empty) =
     Inr (''cookies'', info_of_formats [fmt_hf 720 30])"
    by (simp add: feq e2)
  \<comment> \<open>the acquisition fails\<close>
  have f1: "extract_formats backend_failing ''u'' None world_empty = (Inl ?e, ?v1)"
    by (simp add: extract_formats_def Let_def z backend_failing_def truthy_str_def)
  have g2: "get_cookies_headless backend_failing ''u'' = Inl (BrowserError ''Browser closed'')"
    by (simp add: backend_failing_def)
  have "extract_with_fallback example_lib backend_failing ''u'' world_empty =
        (Inl (BrowserError ''Browser closed''),
         record_call (GetCookiesHeadless ''u'') (record_call (PathExists ''cookies.txt'') ?v1)) \<and>
      backend_runs (snd (extract_with_fallback example_lib backend_failing ''u'' world_empty)) =
        backend_runs world_empty + 1"
    using extract_with_fallback_protocol [where lib = example_lib and bk = backend_failing and url = "''u''"
        and w = world_empty and e = "?e" and ?w1.0 = "?v1"
        and ?e1.0 = "BrowserError ''Browser closed''"] f1 z(4) g2
    by blast
  then have ieq: "extract_with_fallback example_lib backend_failing ''u'' world_empty =
        (Inl (BrowserError ''Browser closed''),
         record_call (GetCookiesHeadless ''u'') (record_call (PathExists ''cookies.txt'') ?v1))"
    and jeq: "backend_runs (snd (extract_with_fallback example_lib backend_failing ''u'' world_empty)) =
        backend_runs world_empty + 1"
    by blast+
  have i: "fst (extract_with_fallback example_lib backend_failing ''u'' world_empty) =
     Inl (BrowserError ''Browser closed'')"
    by (simp add: ieq)
  have j: "backend_runs (snd (extract_with_fallback example_lib backend_failing ''u'' world_empty)) = 1"
    using jeq by (simp add: z)
  from a b c d f g h i j show ?thesis by blast
qed

section \<open>Properties of the cookie file\<close>

lemma split_on_not_Nil: "split_on c t \<noteq> []"
  by (induction t) (auto split: list.splits)

lemma split_on_clean: "c \<notin> set a \<Longrightarrow> split_on c a = [a]"
  by (induction a) auto

lemma split_on_append: "c \<notin> set a \<Longrightarrow> split_on c (a @ c # rest) = a # split_on c rest"
  by (induction a) auto

lemma split_on_join:
  "xs \<noteq> [] \<Longrightarrow> \<forall>x\<in>set xs. c \<notin> set x \<Longrightarrow> split_on c (py_join [c] xs) = xs"
proof (induction "[c]" xs rule: py_join.induct)
  case 1
  then show ?case by simp
next
  case (2 x)
  then show ?case by (simp add: split_on_clean)
next
  case (3 x y ys)
  then show ?case by (simp add: split_on_append)
qed

lemma split_on_lines:
  "\<forall>l\<in>set ls. c \<notin> set l \<Longrightarrow> split_on c (concat (map (\<lambda>l. l @ [c]) ls)) = ls @ [[]]"
  by (induction ls) (simp_all add: split_on_append)

lemma text_lines_terminated:
  assumes "\<forall>l\<in>set ls. CHR 0x0A \<notin> set l"
  shows "text_lines (concat (map (\<lambda>l. l @ [CHR 0x0A]) ls)) = ls"
  by (simp add: text_lines_def split_on_lines [OF assms])

lemma digit_chars: "\<forall>k\<in>set [0..<10]. is_digit (char_of (48 + k))"
  by code_simp

lemma digit_char: "(k::nat) < 10 \<Longrightarrow> is_digit (char_of (48 + k))"
  using digit_chars by simp

lemma str_nat_digits: "str_nat n \<noteq> [] \<and> list_all is_digit (str_nat n)"
proof (induction n rule: str_nat.induct)
  case (1 n)
  show ?case
  proof (cases "n < 10")
    case True
    then show ?thesis
      by (simp add: str_nat.simps [of n] digit_char)
  next
    case False
    then have "str_nat n = str_nat (n div 10) @ [char_of (48 + n mod 10)]"
      by (simp add: str_nat.simps [of n])
    moreover have "is_digit (char_of (48 + n mod 10))"
      by (rule digit_char) simp
    ultimately show ?thesis
      using 1 False by simp
  qed
qed

lemma is_digit_clean: "is_digit ch \<Longrightarrow> ch \<noteq> CHR 0x09 \<and> ch \<noteq> CHR 0x0A \<and> ch \<noteq> CHR ''-''"
  by (auto simp: is_digit_def)

lemma py_str_int_decimal: "is_decimal_integer (py_str_int i)"
proof (cases "i < 0")
  case True
  then show ?thesis
    using str_nat_digits [of "nat (- i)"]
    by (simp add: py_str_int_def is_decimal_integer_def)
next
  case False
  obtain x xs where xs: "str_nat (nat i) = x # xs"
    using str_nat_digits [of "nat i"] by (cases "str_nat (nat i)") auto
  then have "is_digit x" "list_all is_digit xs"
    using str_nat_digits [of "nat i"] by simp_all
  then show ?thesis
    using False is_digit_clean [of x]
    by (simp add: py_str_int_def is_decimal_integer_def xs)
qed

lemma py_str_int_clean: "field_clean (py_str_int i)"
proof -
  have "\<forall>ch\<in>set (str_nat n). ch \<noteq> CHR 0x09 \<and> ch \<noteq> CHR 0x0A" for n
    using str_nat_digits [of n] is_digit_clean by (auto simp: list_all_iff)
  then show ?thesis
    by (auto simp: field_clean_def py_str_int_def)
qed

lemma py_str_int_0: "py_str_int 0 = ''0''"
  by code_simp

lemma char_of_digits:
  "char_of (48::nat) = CHR ''0''" "char_of (49::nat) = CHR ''1''" "char_of (50::nat) = CHR ''2''"
  "char_of (51::nat) = CHR ''3''" "char_of (52::nat) = CHR ''4''" "char_of (53::nat) = CHR ''5''"
  "char_of (54::nat) = CHR ''6''" "char_of (55::nat) = CHR ''7''" "char_of (56::nat) = CHR ''8''"
  "char_of (57::nat) = CHR ''9''"
  by code_simp+

lemma str_nat_small: "n < 10 \<Longrightarrow> str_nat n = [char_of (48 + n)]"
  by (simp add: str_nat.simps [of n])

lemma str_nat_big:
  "\<not> n < 10 \<Longrightarrow> str_nat n = str_nat (n div 10) @ [char_of (48 + n mod 10)]"
  by (simp add: str_nat.simps [of n])

lemmas py_str_int_eval = py_str_int_def str_nat_small str_nat_big char_of_digits

lemma of_char_digit: "k < 10 \<Longrightarrow> of_char (char_of (48 + k)) = (48 + k :: nat)"
  by (simp add: of_char_of)

lemma digits_value_snoc:
  "digits_value (t @ [ch]) = 10 * digits_value t + (of_char ch - 48)"
  by (simp add: digits_value_def)

lemma digits_value_str_nat: "digits_value (str_nat n) = n"
proof (induction n rule: str_nat.induct)
  case (1 n)
  show ?case
  proof (cases "n < 10")
    case True
    then show ?thesis
      by (simp add: str_nat_small digits_value_def of_char_digit)
  next
    case False
    have "n mod 10 < 10"
      by simp
    then have "of_char (char_of (48 + n mod 10)) = (48 + n mod 10 :: nat)"
      by (rule of_char_digit)
    then show ?thesis
      using 1 False by (simp add: str_nat_big [OF False] digits_value_snoc)
  qed
qed

lemma decimal_value_py_str_int: "decimal_value (py_str_int i) = i"
proof (cases "i < 0")
  case True
  then show ?thesis
    by (simp add: py_str_int_def decimal_value_def digits_value_str_nat)
next
  case False
  obtain x xs where xs: "str_nat (nat i) = x # xs"
    using str_nat_digits [of "nat i"] by (cases "str_nat (nat i)") auto
  then have "is_digit x"
    using str_nat_digits [of "nat i"] by simp
  then have "x \<noteq> CHR ''-''"
    using is_digit_clean by blast
  moreover have "digits_value (x # xs) = nat i"
    using digits_value_str_nat [of "nat i"] by (simp add: xs)
  ultimately show ?thesis
    using False by (simp add: py_str_int_def decimal_value_def xs)
qed

lemma py_join_avoids:
  "\<forall>x\<in>set xs. ch \<notin> set x \<Longrightarrow> ch \<notin> set sep \<Longrightarrow> ch \<notin> set (py_join sep xs)"
  by (induction sep xs rule: py_join.induct) auto

lemma cookie_fields_length: "length (cookie_fields lib c) = 7"
  by (simp add: cookie_fields_def Let_def)

lemma cookie_fields_nth:
  "cookie_fields lib c ! 0 = (case c_domain c of None \<Rightarrow> [] | Some d \<Rightarrow> d)"
  "cookie_fields lib c ! 1 =
     (if prefix ''.'' (case c_domain c of None \<Rightarrow> [] | Some d \<Rightarrow> d) then ''TRUE'' else ''FALSE'')"
  "cookie_fields lib c ! 2 = (case c_path c of None \<Rightarrow> ''/'' | Some p \<Rightarrow> p)"
  "cookie_fields lib c ! 3 = (if c_secure c = Some True then ''TRUE'' else ''FALSE'')"
  "cookie_fields lib c ! 4 = py_str lib (case c_expires c of None \<Rightarrow> PyInt 0 | Some e \<Rightarrow> e)"
  "cookie_fields lib c ! 5 = (case c_name c of None \<Rightarrow> [] | Some n \<Rightarrow> n)"
  "cookie_fields lib c ! 6 = (case c_value c of None \<Rightarrow> [] | Some v \<Rightarrow> v)"
  by (auto simp: cookie_fields_def Let_def split: option.splits)

lemma py_str_PyInt: "py_str lib (PyInt n) = py_str_int n"
  by (simp add: py_str_def)

lemma cookie_fields_clean:
  assumes "cookie_clean lib c"
  shows "\<forall>f\<in>set (cookie_fields lib c). field_clean f"
proof -
  have "field_clean ''TRUE''" "field_clean ''FALSE''"
    by (simp_all add: field_clean_def)
  then show ?thesis
    using assms
    by (simp add: cookie_fields_def Let_def cookie_clean_def)
qed

text \<open>An integer expiry, or none, is written without tab and newline, so such a cookie
  is clean when its four strings are.\<close>

lemma cookie_clean_integer_expiry:
  assumes "c_expires c = None \<or> (\<exists>n. c_expires c = Some (PyInt n))"
  shows "cookie_clean lib c \<longleftrightarrow>
     field_clean (case c_domain c of None \<Rightarrow> [] | Some d \<Rightarrow> d) \<and>
     field_clean (case c_path c of None \<Rightarrow> ''/'' | Some p \<Rightarrow> p) \<and>
     field_clean (case c_name c of None \<Rightarrow> [] | Some n \<Rightarrow> n) \<and>
     field_clean (case c_value c of None \<Rightarrow> [] | Some v \<Rightarrow> v)"
  using assms py_str_int_clean
  by (auto simp: cookie_clean_def py_str_PyInt)

lemma cookie_line_split:
  assumes "cookie_clean lib c"
  shows "split_on (CHR 0x09) (py_join [CHR 0x09] (cookie_fields lib c)) = cookie_fields lib c"
proof (rule split_on_join)
  show "cookie_fields lib c \<noteq> []"
    using cookie_fields_length [of lib c] by auto
  show "\<forall>x\<in>set (cookie_fields lib c). CHR 0x09 \<notin> set x"
    using cookie_fields_clean [OF assms] by (simp add: field_clean_def)
qed

lemma cookie_line_no_newline:
  assumes "cookie_clean lib c"
  shows "CHR 0x0A \<notin> set (py_join [CHR 0x09] (cookie_fields lib c))"
proof (rule py_join_avoids)
  show "\<forall>x\<in>set (cookie_fields lib c). CHR 0x0A \<notin> set x"
    using cookie_fields_clean [OF assms] by (simp add: field_clean_def)
  show "CHR 0x0A \<notin> set [CHR 0x09]"
    by simp
qed

lemma cookie_file_text_lines:
  "cookie_file_text lib cookies =
     concat (map (\<lambda>l. l @ [CHR 0x0A])
       (''# Netscape HTTP Cookie File'' #
        map (\<lambda>c. py_join [CHR 0x09] (cookie_fields lib c)) cookies))"
  by (simp add: cookie_file_text_def cookie_line_def [abs_def] comp_def)

lemma text_lines_cookie_file:
  assumes "list_all (cookie_clean lib) cookies"
  shows "text_lines (cookie_file_text lib cookies) =
     ''# Netscape HTTP Cookie File'' # map (\<lambda>c. py_join [CHR 0x09] (cookie_fields lib c)) cookies"
  unfolding cookie_file_text_lines
proof (rule text_lines_terminated)
  have "CHR 0x0A \<notin> set ''# Netscape HTTP Cookie File''"
    by simp
  then show "\<forall>l\<in>set (''# Netscape HTTP Cookie File'' #
      map (\<lambda>c. py_join [CHR 0x09] (cookie_fields lib c)) cookies). CHR 0x0A \<notin> set l"
    using assms cookie_line_no_newline by (auto simp: list_all_iff)
qed

lemma parse_cookie_lines:
  assumes "list_all (cookie_clean lib) cookies"
  shows "List.map_filter
       (\<lambda>l. let fs = split_on (CHR 0x09) l
            in if length fs = 7 then Some (fs ! 0, fs ! 5, fs ! 6) else None)
       (map (\<lambda>c. py_join [CHR 0x09] (cookie_fields lib c)) cookies) = map cookie_triple cookies"
  using assms
proof (induction cookies)
  case Nil
  show ?case by simp
next
  case (Cons c cookies)
  then have c: "cookie_clean lib c" and cs: "list_all (cookie_clean lib) cookies"
    by simp_all
  have "(cookie_fields lib c ! 0, cookie_fields lib c ! 5, cookie_fields lib c ! 6) = cookie_triple c"
    by (simp add: cookie_fields_nth cookie_triple_def)
  then show ?case
    by (simp add: cookie_line_split [OF c] cookie_fields_length Cons.IH [OF cs])
qed

lemma cookie_fields_example:
  "cookie_fields example_lib example_cookie =
     [''.example.org'', ''TRUE'', ''/'', ''TRUE'', ''1700000000'', ''SID'', ''abc'']"
  "cookie_fields example_lib session_cookie =
     [''example.org'', ''FALSE'', ''/'', ''FALSE'', ''0'', ''pref'', ''x=1'']"
  "cookie_fields example_lib tab_cookie =
     [''.example.org'', ''TRUE'', ''/'', ''TRUE'', ''1700000000'', ''SID'', ''a'' @ [CHR 0x09] @ ''b'']"
  "cookie_fields cookie_lib float_cookie =
     [''.example.org'', ''TRUE'', ''/'', ''TRUE'', ''1700000000.5'', ''SID'', ''abc'']"
  "cookie_fields example_lib none_cookie =
     [''.example.org'', ''TRUE'', ''/'', ''TRUE'', ''None'', ''SID'', ''abc'']"
  by (simp_all add: cookie_fields_def Let_def example_cookie_def session_cookie_def
      tab_cookie_def float_cookie_def none_cookie_def cookie_lib_def example_lib_def
      py_str_def py_str_int_eval)

text \<open>
  Claim C9, as stated, fails in two ways. For a cookie whose value holds a tab, the
  written line has eight tab-separated fields and reading the file back does not give the
  cookie's domain, name and value. And the expiry is written with \<open>str\<close>, whatever the
  value is: a float expiry such as \<open>1700000000.5\<close> is written with its fraction, and
  an expiry of \<open>None\<close> as the word \<open>None\<close>; neither is a decimal integer.
\<close>

theorem cookie_round_trip_counterexample:
  "spec_parse_cookie_file (cookie_file_text example_lib [tab_cookie]) \<noteq>
     map cookie_triple [tab_cookie] \<and>
   cookie_fields cookie_lib float_cookie ! 4 = ''1700000000.5'' \<and>
   \<not> is_decimal_integer (cookie_fields cookie_lib float_cookie ! 4) \<and>
   cookie_fields example_lib none_cookie ! 4 = ''None'' \<and>
   \<not> is_decimal_integer (cookie_fields example_lib none_cookie ! 4)"
proof -
  have a: "spec_parse_cookie_file (cookie_file_text example_lib [tab_cookie]) \<noteq>
     map cookie_triple [tab_cookie]"
    by (simp add: spec_parse_cookie_file_def text_lines_def cookie_file_text_def cookie_line_def
        cookie_fields_example)
  have b: "cookie_fields cookie_lib float_cookie ! 4 = ''1700000000.5''"
    "cookie_fields example_lib none_cookie ! 4 = ''None''"
    by (simp_all add: cookie_fields_example)
  have c: "\<not> is_decimal_integer ''1700000000.5''" "\<not> is_decimal_integer ''None''"
    by (simp_all add: is_decimal_integer_def is_digit_def)
  from a b c show ?thesis
    by (simp only: simp_thms)
qed

text \<open>
  Claim C9, amended. \<open>save_cookies_to_file\<close> stores under the file name the header line
  followed by one line per cookie. The line of a cookie is made of seven fields joined by
  tabs: the domain; \<open>TRUE\<close> if the domain starts with a dot and \<open>FALSE\<close> if not; the
  path (\<open>/\<close> when absent); \<open>TRUE\<close> if the cookie is secure and \<open>FALSE\<close> if not;
  the expiry; the name; the value. An absent expiry is written as \<open>0\<close> and an integer
  expiry as the decimal integer of that value. For cookies whose domain, path, name,
  value and written expiry hold neither a tab nor a newline (an integer expiry never
  does), the lines of the file are the header and these lines in order, every line
  splits at its tabs into its seven fields, and reading the file back gives the domain,
  name and value of every cookie, in order.
\<close>

theorem save_cookies_to_file_layout:
  "fst (save_cookies_to_file lib cookies filename w) = filename \<and>
   files (snd (save_cookies_to_file lib cookies filename w)) filename =
     Some (cookie_file_text lib cookies) \<and>
   cookie_file_text lib cookies =
     concat (map (\<lambda>l. l @ [CHR 0x0A])
       (''# Netscape HTTP Cookie File'' #
        map (\<lambda>c. py_join [CHR 0x09] (cookie_fields lib c)) cookies)) \<and>
   length (cookie_fields lib c) = 7 \<and>
   cookie_fields lib c ! 0 = (case c_domain c of None \<Rightarrow> [] | Some d \<Rightarrow> d) \<and>
   cookie_fields lib c ! 1 =
     (if prefix ''.'' (case c_domain c of None \<Rightarrow> [] | Some d \<Rightarrow> d) then ''TRUE'' else ''FALSE'') \<and>
   cookie_fields lib c ! 2 = (case c_path c of None \<Rightarrow> ''/'' | Some p \<Rightarrow> p) \<and>
   cookie_fields lib c ! 3 = (if c_secure c = Some True then ''TRUE'' else ''FALSE'') \<and>
   (c_expires c = None \<longrightarrow> cookie_fields lib c ! 4 = ''0'') \<and>
   (c_expires c = Some (PyInt n) \<longrightarrow>
      is_decimal_integer (cookie_fields lib c ! 4) \<and>
      decimal_value (cookie_fields lib c ! 4) = n \<and>
      field_clean (cookie_fields lib c ! 4)) \<and>
   cookie_fields lib c ! 5 = (case c_name c of None \<Rightarrow> [] | Some n \<Rightarrow> n) \<and>
   cookie_fields lib c ! 6 = (case c_value c of None \<Rightarrow> [] | Some v \<Rightarrow> v) \<and>
   (list_all (cookie_clean lib) cookies \<longrightarrow>
      text_lines (cookie_file_text lib cookies) =
        ''# Netscape HTTP Cookie File'' #
        map (\<lambda>c. py_join [CHR 0x09] (cookie_fields lib c)) cookies \<and>
      (\<forall>c\<in>set cookies.
         split_on (CHR 0x09) (py_join [CHR 0x09] (cookie_fields lib c)) = cookie_fields lib c) \<and>
      spec_parse_cookie_file (cookie_file_text lib cookies) = map cookie_triple cookies)"
proof (intro conjI impI)
  show "fst (save_cookies_to_file lib cookies filename w) = filename"
    by (simp add: save_cookies_to_file_def)
  show "files (snd (save_cookies_to_file lib cookies filename w)) filename =
     Some (cookie_file_text lib cookies)"
    by (simp add: save_cookies_to_file_def record_call_def)
  show "cookie_file_text lib cookies =
     concat (map (\<lambda>l. l @ [CHR 0x0A])
       (''# Netscape HTTP Cookie File'' #
        map (\<lambda>c. py_join [CHR 0x09] (cookie_fields lib c)) cookies))"
    by (rule cookie_file_text_lines)
  show "length (cookie_fields lib c) = 7"
    by (rule cookie_fields_length)
  show "cookie_fields lib c ! 0 = (case c_domain c of None \<Rightarrow> [] | Some d \<Rightarrow> d)"
    by (rule cookie_fields_nth)
  show "cookie_fields lib c ! 1 =
     (if prefix ''.'' (case c_domain c of None \<Rightarrow> [] | Some d \<Rightarrow> d) then ''TRUE'' else ''FALSE'')"
    by (rule cookie_fields_nth)
  show "cookie_fields lib c ! 2 = (case c_path c of None \<Rightarrow> ''/'' | Some p \<Rightarrow> p)"
    by (rule cookie_fields_nth)
  show "cookie_fields lib c ! 3 = (if c_secure c = Some True then ''TRUE'' else ''FALSE'')"
    by (rule cookie_fields_nth)
  show "cookie_fields lib c ! 5 = (case c_name c of None \<Rightarrow> [] | Some n \<Rightarrow> n)"
    by (rule cookie_fields_nth)
  show "cookie_fields lib c ! 6 = (case c_value c of None \<Rightarrow> [] | Some v \<Rightarrow> v)"
    by (rule cookie_fields_nth)
  show "cookie_fields lib c ! 4 = ''0''" if "c_expires c = None"
    using that by (simp add: cookie_fields_nth(5) py_str_PyInt py_str_int_0)
next
  assume e: "c_expires c = Some (PyInt n)"
  then have f: "cookie_fields lib c ! 4 = py_str_int n"
    by (simp add: cookie_fields_nth(5) py_str_PyInt)
  show "is_decimal_integer (cookie_fields lib c ! 4)"
    unfolding f by (rule py_str_int_decimal)
  show "decimal_value (cookie_fields lib c ! 4) = n"
    unfolding f by (rule decimal_value_py_str_int)
  show "field_clean (cookie_fields lib c ! 4)"
    unfolding f by (rule py_str_int_clean)
next
  assume clean: "list_all (cookie_clean lib) cookies"
  show lines: "text_lines (cookie_file_text lib cookies) =
        ''# Netscape HTTP Cookie File'' #
        map (\<lambda>c. py_join [CHR 0x09] (cookie_fields lib c)) cookies"
    by (rule text_lines_cookie_file [OF clean])
  show "\<forall>c\<in>set cookies.
         split_on (CHR 0x09) (py_join [CHR 0x09] (cookie_fields lib c)) = cookie_fields lib c"
    using clean by (auto simp: list_all_iff cookie_line_split)
  show "spec_parse_cookie_file (cookie_file_text lib cookies) = map cookie_triple cookies"
    unfolding spec_parse_cookie_file_def lines
    using parse_cookie_lines [OF clean] by simp
qed

theorem save_cookies_to_file_layout_witness:
  "spec_parse_cookie_file (cookie_file_text example_lib [example_cookie, session_cookie]) =
     [(''.example.org'', ''SID'', ''abc''), (''example.org'', ''pref'', ''x=1'')] \<and>
   map (split_on (CHR 0x09))
     (text_lines (cookie_file_text example_lib [example_cookie, session_cookie])) =
     [[''# Netscape HTTP Cookie File''],
      [''.example.org'', ''TRUE'', ''/'', ''TRUE'', ''1700000000'', ''SID'', ''abc''],
      [''example.org'', ''FALSE'', ''/'', ''FALSE'', ''0'', ''pref'', ''x=1'']] \<and>
   cookie_fields example_lib session_cookie ! 4 = ''0'' \<and>
   decimal_value (cookie_fields example_lib example_cookie ! 4) = 1700000000"
proof -
  let ?cs = "[example_cookie, session_cookie]"
  have ex: "c_expires example_cookie = Some (PyInt 1700000000)"
    by (simp add: example_cookie_def)
  have none: "c_expires session_cookie = None"
    by (simp add: session_cookie_def)
  have clean: "list_all (cookie_clean example_lib) ?cs"
    by (simp add: cookie_clean_integer_expiry ex none)
       (simp add: field_clean_def example_cookie_def session_cookie_def)
  note th = save_cookies_to_file_layout [of example_lib ?cs _ _ session_cookie]
  from th clean have parse:
    "spec_parse_cookie_file (cookie_file_text example_lib ?cs) = map cookie_triple ?cs"
    by blast
  from th clean have lines: "text_lines (cookie_file_text example_lib ?cs) =
      ''# Netscape HTTP Cookie File'' #
      map (\<lambda>c. py_join [CHR 0x09] (cookie_fields example_lib c)) ?cs"
    by blast
  from th clean have split: "\<forall>c\<in>set ?cs.
      split_on (CHR 0x09) (py_join [CHR 0x09] (cookie_fields example_lib c)) =
      cookie_fields example_lib c"
    by blast
  from th none have zero: "cookie_fields example_lib session_cookie ! 4 = ''0''"
    by blast
  from save_cookies_to_file_layout [of example_lib ?cs _ _ example_cookie 1700000000] ex
  have dec: "decimal_value (cookie_fields example_lib example_cookie ! 4) = 1700000000"
    by blast
  note f1 = cookie_fields_example(1) and f2 = cookie_fields_example(2)
  have a: "spec_parse_cookie_file (cookie_file_text example_lib ?cs) =
     [(''.example.org'', ''SID'', ''abc''), (''example.org'', ''pref'', ''x=1'')]"
    unfolding parse by (simp add: cookie_triple_def example_cookie_def session_cookie_def)
  have b: "map (split_on (CHR 0x09)) (text_lines (cookie_file_text example_lib ?cs)) =
     [[''# Netscape HTTP Cookie File''],
      [''.example.org'', ''TRUE'', ''/'', ''TRUE'', ''1700000000'', ''SID'', ''abc''],
      [''example.org'', ''FALSE'', ''/'', ''FALSE'', ''0'', ''pref'', ''x=1'']]"
    unfolding lines using split by (simp add: f1 f2 split_on_clean)
  from a b zero dec show ?thesis by blast
qed

end
